theory Spec2Isabelle
  imports Complex_Main "HOL-Library.Multiset" "HOL-Library.Sublist"
begin

section \<open>Python values and errors\<close>

text \<open>
  The values that \<^verbatim>\<open>json.load\<close> produces: \<^verbatim>\<open>None\<close>, booleans, unbounded integers,
  floats (carried as exact rationals; the JSON extensions NaN and Infinity are left out),
  strings, lists and dicts with string keys. A dict is the list of its items in insertion
  order; a lookup takes the first binding of a key.
\<close>

datatype json =
    JNull
  | JBool bool
  | JInt int
  | JFloat rat
  | JString string
  | JArray "json list"
  | JObject "(string \<times> json) list"

datatype py_error =
    TypeError
  | KeyError
  | IndexError
  | OSError
  | JSONDecodeError
  | ZeroDivisionError
  | BadRequestKeyError
  | BuildError

text \<open>Truth value of a Python object, as \<^verbatim>\<open>not x\<close>, \<^verbatim>\<open>x and y\<close> and \<^verbatim>\<open>x or y\<close> test it.\<close>

fun truthy :: "json \<Rightarrow> bool" where
  "truthy JNull = False"
| "truthy (JBool b) = b"
| "truthy (JInt i) = (i \<noteq> 0)"
| "truthy (JFloat f) = (f \<noteq> 0)"
| "truthy (JString s) = (s \<noteq> [])"
| "truthy (JArray xs) = (xs \<noteq> [])"
| "truthy (JObject kvs) = (kvs \<noteq> [])"

type_synonym pydict = "(string \<times> json) list"

text \<open>\<^verbatim>\<open>k in d\<close>, \<^verbatim>\<open>d.get(k)\<close> (\<^verbatim>\<open>None\<close> when absent), \<^verbatim>\<open>d.get(k, default)\<close>
  and \<^verbatim>\<open>d[k] = v\<close> on a dict.\<close>

definition dict_contains :: "pydict \<Rightarrow> string \<Rightarrow> bool" where
  "dict_contains d k = (map_of d k \<noteq> None)"

definition dict_get :: "pydict \<Rightarrow> string \<Rightarrow> json" where
  "dict_get d k = (case map_of d k of None \<Rightarrow> JNull | Some v \<Rightarrow> v)"

definition dict_get_default :: "pydict \<Rightarrow> string \<Rightarrow> json \<Rightarrow> json" where
  "dict_get_default d k dflt = (case map_of d k of None \<Rightarrow> dflt | Some v \<Rightarrow> v)"

fun dict_set :: "('k \<times> 'v) list \<Rightarrow> 'k \<Rightarrow> 'v \<Rightarrow> ('k \<times> 'v) list" where
  "dict_set [] k v = [(k, v)]"
| "dict_set ((k', v') # d) k v = (if k' = k then (k, v) # d else (k', v') # dict_set d k v)"

text \<open>\<^verbatim>\<open>x[0]\<close>: the first element of a list, the first character of a string; a dict
  loaded from JSON has string keys only, so the key \<^verbatim>\<open>0\<close> is missing; every other value
  is not subscriptable.\<close>

fun subscript0 :: "json \<Rightarrow> py_error + json" where
  "subscript0 (JArray (x # xs)) = Inr x"
| "subscript0 (JArray []) = Inl IndexError"
| "subscript0 (JString (c # cs)) = Inr (JString [c])"
| "subscript0 (JString []) = Inl IndexError"
| "subscript0 (JObject kvs) = Inl KeyError"
| "subscript0 v = Inl TypeError"

text \<open>\<^verbatim>\<open>name in x\<close> for a string \<^verbatim>\<open>name\<close>: a key of a dict, an element of a list, a
  substring of a string; any other value is not iterable.\<close>

definition is_substring :: "string \<Rightarrow> string \<Rightarrow> bool" where
  "is_substring s t = (\<exists>i \<in> set [0 ..< Suc (length t)]. take (length s) (drop i t) = s)"

fun str_in :: "string \<Rightarrow> json \<Rightarrow> py_error + bool" where
  "str_in name (JObject kvs) = Inr (dict_contains kvs name)"
| "str_in name (JArray xs) = Inr (JString name \<in> set xs)"
| "str_in name (JString s) = Inr (is_substring name s)"
| "str_in name v = Inl TypeError"

section \<open>Configuration (config.py)\<close>

text \<open>The dataclass \<^verbatim>\<open>Config\<close>. Nothing checks the annotated types when an instance is
  built, so each field holds whatever value it was given.\<close>

record Config =
  media_path :: json
  transcode_path :: json
  ffmpeg_path :: json
  ffprobe_path :: json
  jellyfin_url :: json
  jellyfin_api_key :: json
  plex_url :: json
  plex_token :: json
  path_mappings :: json
  presets :: json
  max_concurrent_jobs :: json
  hw_accel :: json
  hw_device :: json
  hw_capabilities :: json
  enabled_libraries :: json
  log_level :: json

text \<open>\<^verbatim>\<open>__post_init__\<close>: the three dictionaries are never \<^verbatim>\<open>None\<close>.\<close>

definition none_to_empty :: "json \<Rightarrow> json" where
  "none_to_empty v = (if v = JNull then JObject [] else v)"

definition post_init :: "Config \<Rightarrow> Config" where
  "post_init c = c\<lparr> presets := none_to_empty (presets c),
                    path_mappings := none_to_empty (path_mappings c),
                    enabled_libraries := none_to_empty (enabled_libraries c) \<rparr>"

definition preset_of :: "string \<Rightarrow> string \<Rightarrow> int \<Rightarrow> json" where
  "preset_of scale audio_bitrate crf = JObject
     [(''codec'', JString ''hevc''),
      (''scale'', JString scale),
      (''container'', JString ''.mkv''),
      (''audio_codec'', JString ''aac''),
      (''audio_bitrate'', JString audio_bitrate),
      (''crf'', JInt crf),
      (''allow_fallback'', JBool True)]"

definition default_presets :: json where
  "default_presets = JObject
     [(''high'', preset_of ''1080p'' ''192k'' 20),
      (''medium'', preset_of ''720p'' ''128k'' 24),
      (''low'', preset_of ''480p'' ''96k'' 28)]"

definition default_config :: pydict where
  "default_config =
     [(''media_path'', JString ''/media''),
      (''transcode_path'', JString ''/transcodes''),
      (''ffmpeg_path'', JString ''/usr/bin/ffmpeg''),
      (''ffprobe_path'', JString ''/usr/bin/ffprobe''),
      (''path_mappings'', JObject []),
      (''presets'', default_presets),
      (''jellyfin_url'', JString ''''),
      (''jellyfin_api_key'', JString '''')]"

text \<open>What \<^verbatim>\<open>load_config\<close> finds at the configuration path: no file, a file that cannot be
  opened, a file that is not JSON, or a JSON document.\<close>

datatype config_file = Absent | Unreadable | Malformed | Document json

text \<open>The document as \<^verbatim>\<open>config_data\<close>, with the default presets filled in. Only a dict
  passes the test \<^verbatim>\<open>"presets" not in config_data or not config_data["presets"]\<close> and the
  assignment after it: a list or a string is indexed or assigned with a string key, a
  number, a boolean or \<^verbatim>\<open>None\<close> is not iterable.\<close>

fun ensure_presets :: "json \<Rightarrow> py_error + pydict" where
  "ensure_presets (JObject d) =
     (if \<not> dict_contains d ''presets'' \<or> \<not> truthy (dict_get d ''presets'')
      then Inr (dict_set d ''presets'' default_presets)
      else Inr d)"
| "ensure_presets v = Inl TypeError"

definition read_config_data :: "config_file \<Rightarrow> py_error + pydict" where
  "read_config_data f =
     (case f of
        Absent \<Rightarrow> Inr default_config
      | Unreadable \<Rightarrow> Inl OSError
      | Malformed \<Rightarrow> Inl JSONDecodeError
      | Document doc \<Rightarrow> ensure_presets doc)"

text \<open>Migration from \<^verbatim>\<open>media_paths\<close> to \<^verbatim>\<open>media_path\<close>.\<close>

definition migrate_media_path :: "pydict \<Rightarrow> py_error + json" where
  "migrate_media_path d =
     (let media_path = dict_get d ''media_path'' in
      if \<not> truthy media_path \<and> dict_contains d ''media_paths''
           \<and> truthy (dict_get d ''media_paths'')
      then subscript0 (dict_get d ''media_paths'')
      else Inr media_path)"

definition build_config :: "pydict \<Rightarrow> json \<Rightarrow> Config" where
  "build_config d mp = post_init
     \<lparr> media_path = (if truthy mp then mp else JString ''/media''),
       transcode_path = dict_get_default d ''transcode_path'' (JString ''/transcodes''),
       ffmpeg_path = dict_get_default d ''ffmpeg_path'' (JString ''/usr/bin/ffmpeg''),
       ffprobe_path = dict_get_default d ''ffprobe_path'' (JString ''/usr/bin/ffprobe''),
       jellyfin_url = dict_get d ''jellyfin_url'',
       jellyfin_api_key = dict_get d ''jellyfin_api_key'',
       plex_url = dict_get d ''plex_url'',
       plex_token = dict_get d ''plex_token'',
       path_mappings = dict_get_default d ''path_mappings'' (JObject []),
       presets = dict_get_default d ''presets'' default_presets,
       max_concurrent_jobs = dict_get_default d ''max_concurrent_jobs'' (JInt 1),
       hw_accel = dict_get d ''hw_accel'',
       hw_device = dict_get d ''hw_device'',
       hw_capabilities = dict_get d ''hw_capabilities'',
       enabled_libraries = dict_get_default d ''enabled_libraries'' (JObject []),
       log_level = dict_get_default d ''log_level'' (JString ''INFO'') \<rparr>"

text \<open>\<^verbatim>\<open>load_config\<close>. Creating the configuration directory and the logged warnings do not
  reach the returned value and are left out.\<close>

definition load_config :: "config_file \<Rightarrow> py_error + Config" where
  "load_config f =
     (case read_config_data f of
        Inl e \<Rightarrow> Inl e
      | Inr config_data \<Rightarrow>
          (case migrate_media_path config_data of
             Inl e \<Rightarrow> Inl e
           | Inr mp \<Rightarrow> Inr (build_config config_data mp)))"

text \<open>\<^verbatim>\<open>presets[name][field]\<close> read off a loaded value, for stating what the presets hold.\<close>

definition items :: "json \<Rightarrow> pydict" where
  "items v = (case v of JObject d \<Rightarrow> d | _ \<Rightarrow> [])"

definition preset_field :: "json \<Rightarrow> string \<Rightarrow> string \<Rightarrow> json" where
  "preset_field ps name field = dict_get (items (dict_get (items ps) name)) field"

section \<open>The user interface blueprint (blueprints/ui.py)\<close>

subsection \<open>What the handlers work with\<close>

text \<open>
  Modelled from the spec: the classes \<^verbatim>\<open>MediaItem\<close>, \<^verbatim>\<open>Show\<close> and \<^verbatim>\<open>Job\<close> are declared in
  the scanner and transcoder modules, which are not among the sources. The records hold
  the attributes that the specification lists and the handlers read.
\<close>

record MediaItem =
  path :: string
  media_type :: string
  display_name :: string
  show_id :: "string option"

record Show =
  title :: string

record Job =
  job_id :: string
  media_id :: string
  preset_name :: string
  status :: string
  output_path :: "string option"

text \<open>The file system as the handlers query it: \<^verbatim>\<open>os.path.exists\<close>, \<^verbatim>\<open>os.path.isfile\<close>,
  \<^verbatim>\<open>os.path.getsize\<close> (\<open>None\<close> when it raises \<^verbatim>\<open>OSError\<close>) and \<^verbatim>\<open>os.path.realpath\<close>.\<close>

record filesystem =
  exists :: "string \<Rightarrow> bool"
  isfile :: "string \<Rightarrow> bool"
  getsize :: "string \<Rightarrow> nat option"
  realpath :: "string \<Rightarrow> string"

text \<open>Floats are carried as exact rationals. How a float is printed is a parameter:
  \<open>round2 x\<close> is the text of \<^verbatim>\<open>round(x, 2)\<close> and \<open>fixed1 x\<close> the text of \<^verbatim>\<open>f"{x:.1f}"\<close>.\<close>

record float_text =
  round2 :: "rat \<Rightarrow> string"
  fixed1 :: "rat \<Rightarrow> string"

text \<open>What a handler does besides returning: the messages it flashes (with their
  category) and the calls it makes into the transcoder, in order.\<close>

datatype call =
    Flash string string
  | CreateJob MediaItem string
  | StartTranscode Job MediaItem string json
  | CancelTranscodeJob string
  | DeleteTranscode string json

definition starts_job :: "call \<Rightarrow> bool" where
  "starts_job c = (case c of CreateJob m n \<Rightarrow> True | StartTranscode j m n t \<Rightarrow> True | _ \<Rightarrow> False)"

record job_data =
  job :: Job
  media_title :: string
  file_size :: string

text \<open>The response: \<^verbatim>\<open>redirect(url_for(endpoint, **values))\<close>, the two rendered templates
  with their context, and \<^verbatim>\<open>send_file(path, as_attachment)\<close>.\<close>

datatype response =
    Redirect string "(string \<times> string) list"
  | RenderJobs "job_data list" "job_data list" "job_data list"
  | RenderCompleted "(string \<times> string) list list"
  | SendFile string bool

record reply =
  calls :: "call list"
  body :: response

definition flash :: "string \<Rightarrow> call" where
  "flash message = Flash message ''message''"

text \<open>Truth value of an optional string: \<^verbatim>\<open>None\<close> and the empty string are false.\<close>

fun truthy_str :: "string option \<Rightarrow> bool" where
  "truthy_str None = False"
| "truthy_str (Some s) = (s \<noteq> [])"

subsection \<open>File sizes\<close>

definition format_file_size :: "float_text \<Rightarrow> nat \<Rightarrow> string" where
  "format_file_size T bytes_size =
     (if bytes_size < 1024 * 1024
      then round2 T (of_nat bytes_size / 1024) @ '' KB''
      else if bytes_size < 1024 * 1024 * 1024
      then round2 T (of_nat bytes_size / (1024 * 1024)) @ '' MB''
      else round2 T (of_nat bytes_size / (1024 * 1024 * 1024)) @ '' GB'')"

text \<open>\<^verbatim>\<open>100 - (output_size_bytes / file_size_bytes * 100)\<close>; the division raises when the
  divisor is zero.\<close>

definition compression_pct :: "nat \<Rightarrow> nat \<Rightarrow> py_error + rat" where
  "compression_pct output_size_bytes file_size_bytes =
     (if file_size_bytes = 0 then Inl ZeroDivisionError
      else Inr (100 - of_nat output_size_bytes / of_nat file_size_bytes * 100))"

text \<open>The arrow of the size comparison, U+2192, in UTF-8.\<close>

definition arrow :: string where
  "arrow = [CHR 0xE2, CHR 0x86, CHR 0x92]"

definition smaller_text :: "float_text \<Rightarrow> string \<Rightarrow> string \<Rightarrow> rat \<Rightarrow> string" where
  "smaller_text T original_size output_size pct =
     original_size @ '' '' @ arrow @ '' '' @ output_size @ '' ('' @ fixed1 T pct @ ''% smaller)''"

subsection \<open>The route \<^verbatim>\<open>/transcode/<media_id>\<close>\<close>

text \<open>The redirect at the end of the handler. \<^verbatim>\<open>url_for\<close> drops a value that is \<^verbatim>\<open>None\<close>,
  and the URL of \<^verbatim>\<open>ui.show_detail\<close> cannot be built without its \<^verbatim>\<open>show_id\<close>: \<^verbatim>\<open>url_for\<close>
  raises \<^verbatim>\<open>BuildError\<close> then.\<close>

definition back_to_media :: "string \<Rightarrow> MediaItem \<Rightarrow> py_error + response" where
  "back_to_media mid media_item =
     (if media_type media_item = ''movie''
      then Inr (Redirect ''ui.media_detail'' [(''media_id'', mid)])
      else (case show_id media_item of
              None \<Rightarrow> Inl BuildError
            | Some sid \<Rightarrow> Inr (Redirect ''ui.show_detail'' [(''show_id'', sid)])))"

text \<open>The form field \<^verbatim>\<open>preset_name\<close> is \<open>None\<close> when the request does not carry it.
  \<^verbatim>\<open>create_job\<close> belongs to the transcoder module and is a parameter. The handler can
  raise after it has flashed a message or started a job, so its outcome is the calls it
  made together with the response or the error that ended it.\<close>

definition transcode ::
  "(string \<Rightarrow> MediaItem option) \<Rightarrow> config_file \<Rightarrow> (MediaItem \<Rightarrow> string \<Rightarrow> Job)
     \<Rightarrow> string option \<Rightarrow> string \<Rightarrow> call list \<times> (py_error + response)" where
  "transcode get_media cf create_job form_preset_name mid =
     (case form_preset_name of
        None \<Rightarrow> ([], Inl BadRequestKeyError)
      | Some name \<Rightarrow>
          (case get_media mid of
             None \<Rightarrow> ([flash ''Media not found''], Inr (Redirect ''ui.index'' []))
           | Some media_item \<Rightarrow>
               (case load_config cf of
                  Inl e \<Rightarrow> ([], Inl e)
                | Inr config \<Rightarrow>
                    (case str_in name (presets config) of
                       Inl e \<Rightarrow> ([], Inl e)
                     | Inr False \<Rightarrow>
                         ([flash ''Invalid preset''], back_to_media mid media_item)
                     | Inr True \<Rightarrow>
                         (let new_job = create_job media_item name in
                          ([CreateJob media_item name,
                            StartTranscode new_job media_item name (transcode_path config),
                            flash (''Transcoding job started with preset: '' @ name)],
                           back_to_media mid media_item))))))"

subsection \<open>The route \<^verbatim>\<open>/jobs\<close>\<close>

text \<open>The body of the \<^verbatim>\<open>try\<close> block up to the size text. \<^verbatim>\<open>OSError\<close> comes from
  \<^verbatim>\<open>os.path.getsize\<close>.\<close>

definition job_file_size :: "float_text \<Rightarrow> filesystem \<Rightarrow> Job \<Rightarrow> MediaItem \<Rightarrow> py_error + string" where
  "job_file_size T fs j media_item =
     (case getsize fs (path media_item) of
        None \<Rightarrow> Inl OSError
      | Some file_size_bytes \<Rightarrow>
          (let original_size = format_file_size T file_size_bytes in
           case output_path j of
             None \<Rightarrow> Inr original_size
           | Some out \<Rightarrow>
               if status j = ''completed'' \<and> out \<noteq> [] \<and> exists fs out
               then (case getsize fs out of
                       None \<Rightarrow> Inl OSError
                     | Some output_size_bytes \<Rightarrow>
                         (let output_size = format_file_size T output_size_bytes in
                          if file_size_bytes > 0
                          then (case compression_pct output_size_bytes file_size_bytes of
                                  Inl e \<Rightarrow> Inl e
                                | Inr pct \<Rightarrow> Inr (smaller_text T original_size output_size pct))
                          else Inr original_size))
               else Inr original_size))"

definition job_media_title :: "(string \<Rightarrow> Show option) \<Rightarrow> MediaItem \<Rightarrow> string" where
  "job_media_title get_show media_item =
     (case show_id media_item of
        None \<Rightarrow> display_name media_item
      | Some sid \<Rightarrow>
          if media_type media_item = ''episode'' \<and> sid \<noteq> []
          then (case get_show sid of
                  Some show \<Rightarrow> title show @ '' - '' @ display_name media_item
                | None \<Rightarrow> display_name media_item)
          else display_name media_item)"

text \<open>One round of the loop up to \<^verbatim>\<open>job_data\<close>: the \<^verbatim>\<open>except\<close> clause catches \<^verbatim>\<open>OSError\<close>
  (and its subclass \<^verbatim>\<open>FileNotFoundError\<close>) only; any other exception leaves the handler.\<close>

definition job_entry ::
  "float_text \<Rightarrow> (string \<Rightarrow> MediaItem option) \<Rightarrow> (string \<Rightarrow> Show option) \<Rightarrow> filesystem
     \<Rightarrow> Job \<Rightarrow> py_error + job_data" where
  "job_entry T get_media get_show fs j =
     (case get_media (media_id j) of
        None \<Rightarrow> Inr \<lparr>job = j, media_title = ''Unknown'', file_size = ''N/A''\<rparr>
      | Some media_item \<Rightarrow>
          (case job_file_size T fs j media_item of
             Inr size_text \<Rightarrow>
               Inr \<lparr>job = j, media_title = job_media_title get_show media_item,
                    file_size = size_text\<rparr>
           | Inl OSError \<Rightarrow>
               Inr \<lparr>job = j, media_title = display_name media_item, file_size = ''N/A''\<rparr>
           | Inl e \<Rightarrow> Inl e))"

record job_groups =
  active_jobs :: "job_data list"
  completed_jobs :: "job_data list"
  failed_jobs :: "job_data list"

text \<open>"Categorize job by status", the same in all three branches of the loop body.\<close>

definition categorize :: "job_data \<Rightarrow> job_groups \<Rightarrow> job_groups" where
  "categorize jd g =
     (if status (job jd) \<in> set [''processing'', ''pending'']
      then g\<lparr>active_jobs := active_jobs g @ [jd]\<rparr>
      else if status (job jd) = ''completed''
      then g\<lparr>completed_jobs := completed_jobs g @ [jd]\<rparr>
      else g\<lparr>failed_jobs := failed_jobs g @ [jd]\<rparr>)"

fun jobs_loop ::
  "float_text \<Rightarrow> (string \<Rightarrow> MediaItem option) \<Rightarrow> (string \<Rightarrow> Show option) \<Rightarrow> filesystem
     \<Rightarrow> Job list \<Rightarrow> job_groups \<Rightarrow> py_error + job_groups" where
  "jobs_loop T get_media get_show fs [] g = Inr g"
| "jobs_loop T get_media get_show fs (j # js) g =
     (case job_entry T get_media get_show fs j of
        Inl e \<Rightarrow> Inl e
      | Inr jd \<Rightarrow> jobs_loop T get_media get_show fs js (categorize jd g))"

text \<open>\<^verbatim>\<open>JOBS.values()\<close> is the list of the registry's jobs. \<^verbatim>\<open>list.sort\<close> is stable, as
  \<open>sort_key\<close> is.\<close>

definition processing_first :: "job_data \<Rightarrow> nat" where
  "processing_first x = (if status (job x) = ''processing'' then 0 else 1)"

definition jobs ::
  "float_text \<Rightarrow> (string \<Rightarrow> MediaItem option) \<Rightarrow> (string \<Rightarrow> Show option) \<Rightarrow> filesystem
     \<Rightarrow> Job list \<Rightarrow> py_error + reply" where
  "jobs T get_media get_show fs JOBS =
     (case jobs_loop T get_media get_show fs JOBS
             \<lparr>active_jobs = [], completed_jobs = [], failed_jobs = []\<rparr> of
        Inl e \<Rightarrow> Inl e
      | Inr g \<Rightarrow>
          Inr \<lparr>calls = [],
               body = RenderJobs (sort_key processing_first (active_jobs g))
                        (completed_jobs g) (failed_jobs g)\<rparr>)"

subsection \<open>The routes \<^verbatim>\<open>/jobs/<job_id>/cancel\<close> and \<^verbatim>\<open>/completed/delete/<filename>\<close>\<close>

text \<open>\<^verbatim>\<open>cancel_job\<close> and \<^verbatim>\<open>delete_transcode\<close> of the transcoder and completed modules are
  parameters: the first returns a success flag, the second a pair of a success flag and
  a message.\<close>

definition cancel_job :: "(string \<Rightarrow> bool) \<Rightarrow> string \<Rightarrow> py_error + reply" where
  "cancel_job cancel_transcode_job jid =
     (let success = cancel_transcode_job jid in
      Inr \<lparr>calls = [CancelTranscodeJob jid,
                    if success then flash ''Job cancelled successfully''
                    else Flash ''Could not cancel job'' ''error''],
           body = Redirect ''ui.jobs'' []\<rparr>)"

definition delete_completed_transcode ::
  "config_file \<Rightarrow> (string \<Rightarrow> json \<Rightarrow> bool \<times> string) \<Rightarrow> string \<Rightarrow> py_error + reply" where
  "delete_completed_transcode cf delete_transcode filename =
     (case load_config cf of
        Inl e \<Rightarrow> Inl e
      | Inr config \<Rightarrow>
          (case delete_transcode filename (transcode_path config) of
             (success, message) \<Rightarrow>
               Inr \<lparr>calls = [DeleteTranscode filename (transcode_path config),
                             if success then flash (''Transcode deleted: '' @ message)
                             else Flash (''Error deleting transcode: '' @ message) ''error''],
                    body = Redirect ''ui.completed'' []\<rparr>))"

subsection \<open>The route \<^verbatim>\<open>/completed\<close>\<close>

text \<open>
  Modelled from the spec: the records that \<^verbatim>\<open>get_completed_transcodes\<close> of the completed
  module returns are dicts; they are taken with text values, and the function itself is a
  parameter.
\<close>

type_synonym transcode_record = "(string \<times> string) list"

definition size_comparison :: "float_text \<Rightarrow> filesystem \<Rightarrow> transcode_record \<Rightarrow> py_error + string" where
  "size_comparison T fs t =
     (case map_of t ''original_path'' of
        None \<Rightarrow> Inr (case map_of t ''output_size'' of None \<Rightarrow> ''Unknown'' | Some s \<Rightarrow> s)
      | Some original_path \<Rightarrow>
          if exists fs original_path
          then (case getsize fs original_path of
                  None \<Rightarrow> Inl OSError
                | Some original_size_bytes \<Rightarrow>
                    (case map_of t ''file_path'' of
                       None \<Rightarrow> Inl KeyError
                     | Some file_path \<Rightarrow>
                         (case getsize fs file_path of
                            None \<Rightarrow> Inl OSError
                          | Some output_size_bytes \<Rightarrow>
                              (let original_size = format_file_size T original_size_bytes;
                                   output_size = format_file_size T output_size_bytes in
                               if original_size_bytes > 0
                               then (case compression_pct output_size_bytes original_size_bytes of
                                       Inl e \<Rightarrow> Inl e
                                     | Inr pct \<Rightarrow>
                                         Inr (smaller_text T original_size output_size pct))
                               else Inr output_size))))
          else Inr (case map_of t ''output_size'' of None \<Rightarrow> ''Unknown'' | Some s \<Rightarrow> s))"

fun completed_loop ::
  "float_text \<Rightarrow> filesystem \<Rightarrow> transcode_record list \<Rightarrow> py_error + transcode_record list" where
  "completed_loop T fs [] = Inr []"
| "completed_loop T fs (t # ts) =
     (case size_comparison T fs t of
        Inl e \<Rightarrow> Inl e
      | Inr text \<Rightarrow>
          (case completed_loop T fs ts of
             Inl e \<Rightarrow> Inl e
           | Inr ts' \<Rightarrow> Inr (dict_set t ''size_comparison'' text # ts')))"

definition completed ::
  "float_text \<Rightarrow> config_file \<Rightarrow> (json \<Rightarrow> transcode_record list) \<Rightarrow> filesystem
     \<Rightarrow> py_error + reply" where
  "completed T cf get_completed_transcodes fs =
     (case load_config cf of
        Inl e \<Rightarrow> Inl e
      | Inr config \<Rightarrow>
          (case completed_loop T fs (get_completed_transcodes (transcode_path config)) of
             Inl e \<Rightarrow> Inl e
           | Inr completed_transcodes \<Rightarrow>
               Inr \<lparr>calls = [], body = RenderCompleted completed_transcodes\<rparr>))"

subsection \<open>The route \<^verbatim>\<open>/download/<filename>\<close>\<close>

text \<open>\<^verbatim>\<open>os.path.join\<close> of two components on POSIX.\<close>

definition path_join :: "string \<Rightarrow> string \<Rightarrow> string" where
  "path_join a b =
     (if prefix ''/'' b then b
      else if a = [] \<or> suffix ''/'' a then a @ b
      else a @ ''/'' @ b)"

text \<open>\<^verbatim>\<open>apply_output_path_mapping\<close> of the transcoder module is a parameter, given the value
  of \<^verbatim>\<open>config.transcode_path\<close>. \<^verbatim>\<open>os.path.join\<close> accepts a string only.\<close>

definition download_file ::
  "config_file \<Rightarrow> (json \<Rightarrow> py_error + json) \<Rightarrow> filesystem \<Rightarrow> string \<Rightarrow> py_error + reply" where
  "download_file cf apply_output_path_mapping fs filename =
     (case load_config cf of
        Inl e \<Rightarrow> Inl e
      | Inr config \<Rightarrow>
          (case apply_output_path_mapping (transcode_path config) of
             Inl e \<Rightarrow> Inl e
           | Inr (JString mapped_root) \<Rightarrow>
               (let file_path = path_join mapped_root filename in
                if \<not> exists fs file_path \<or> \<not> isfile fs file_path
                then Inr \<lparr>calls = [flash ''File not found''],
                          body = Redirect ''ui.completed'' []\<rparr>
                else
                  (let real_transcode_path = realpath fs mapped_root;
                       real_file_path = realpath fs file_path in
                   if \<not> prefix real_transcode_path real_file_path
                   then Inr \<lparr>calls = [flash ''Invalid file path''],
                             body = Redirect ''ui.completed'' []\<rparr>
                   else Inr \<lparr>calls = [], body = SendFile file_path True\<rparr>))
           | Inr v \<Rightarrow> Inl TypeError))"

section \<open>The transcode job engine, from the specification\<close>

subsection \<open>Path Mapper\<close>

text \<open>
  Modelled from the spec: the Path Mapper (\<^verbatim>\<open>apply_output_path_mapping\<close> of the transcoder
  module, which is not among the sources). Section 4.5: scan the ordered mapping table for
  the first entry whose source prefix matches the path's prefix; if found, replace that
  prefix with the destination prefix; if no entry matches, return the path unchanged. The
  mapping is purely textual prefix substitution.
\<close>

fun map_path :: "(string \<times> string) list \<Rightarrow> string \<Rightarrow> string" where
  "map_path [] p = p"
| "map_path ((src, dst) # table) p =
     (if prefix src p then dst @ drop (length src) p else map_path table p)"

subsection \<open>Job Registry and Scheduler\<close>

text \<open>
  Modelled from the spec: the Job Registry and the Scheduler (transcoder module, not among
  the sources). Sections 4.2, 4.3 and 5: the registry is the table of all jobs; the
  Scheduler keeps a queue of pending job identifiers in submission order and a count of
  the jobs that are processing; each operation on the registry runs under its exclusive
  lock, so an execution is a sequence of the operations below, in any order and number.
\<close>

record engine =
  registry :: "Job list"
  queue :: "string list"
  processing_count :: nat
  signalled :: "string list"

definition initial :: engine where
  "initial = \<lparr>registry = [], queue = [], processing_count = 0, signalled = []\<rparr>"

fun status_of :: "string \<Rightarrow> Job list \<Rightarrow> string option" where
  "status_of jid [] = None"
| "status_of jid (j # js) = (if job_id j = jid then Some (status j) else status_of jid js)"

fun set_status :: "string \<Rightarrow> string \<Rightarrow> Job list \<Rightarrow> Job list" where
  "set_status jid s [] = []"
| "set_status jid s (j # js) =
     (if job_id j = jid then j\<lparr>status := s\<rparr> # js else j # set_status jid s js)"

fun delete_job :: "string \<Rightarrow> Job list \<Rightarrow> Job list" where
  "delete_job jid [] = []"
| "delete_job jid (j # js) = (if job_id j = jid then js else j # delete_job jid js)"

definition terminal :: "string \<Rightarrow> bool" where
  "terminal s = (s \<in> set [''completed'', ''failed'', ''cancelled''])"

text \<open>Submission (\<^verbatim>\<open>create_job\<close> and \<^verbatim>\<open>start_transcode\<close>): a job with a new identifier is
  created in \<^verbatim>\<open>pending\<close> and enqueued.\<close>

definition submit :: "string \<Rightarrow> string \<Rightarrow> string \<Rightarrow> engine \<Rightarrow> engine" where
  "submit jid mid name st =
     (if status_of jid (registry st) \<noteq> None then st
      else st\<lparr>registry := registry st @
                  [\<lparr>job_id = jid, media_id = mid, preset_name = name,
                    status = ''pending'', output_path = None\<rparr>],
              queue := queue st @ [jid]\<rparr>)"

text \<open>Admission: whenever the count is below the ceiling and the queue is non-empty,
  dequeue the head and transition it to \<^verbatim>\<open>processing\<close>.\<close>

definition admit :: "nat \<Rightarrow> engine \<Rightarrow> engine" where
  "admit limit st =
     (case queue st of
        [] \<Rightarrow> st
      | jid # rest \<Rightarrow>
          if processing_count st < limit
          then st\<lparr>registry := set_status jid ''processing'' (registry st),
                  queue := rest,
                  processing_count := processing_count st + 1\<rparr>
          else st)"

text \<open>A Worker reports a terminal status for the job it owns: the job leaves
  \<^verbatim>\<open>processing\<close> and the count is decremented.\<close>

definition finish :: "string \<Rightarrow> string \<Rightarrow> engine \<Rightarrow> engine" where
  "finish jid s st =
     (if terminal s \<and> status_of jid (registry st) = Some ''processing''
      then st\<lparr>registry := set_status jid s (registry st),
              processing_count := processing_count st - 1\<rparr>
      else st)"

text \<open>Cancellation: a pending job goes to \<^verbatim>\<open>cancelled\<close> directly and leaves the queue; a
  processing job's Worker is signalled and makes the transition itself; a terminal or
  unknown job cannot be cancelled.\<close>

definition cancel_request :: "string \<Rightarrow> engine \<Rightarrow> bool \<times> engine" where
  "cancel_request jid st =
     (case status_of jid (registry st) of
        None \<Rightarrow> (False, st)
      | Some s \<Rightarrow>
          if s = ''pending''
          then (True, st\<lparr>registry := set_status jid ''cancelled'' (registry st),
                         queue := removeAll jid (queue st)\<rparr>)
          else if s = ''processing''
          then (True, st\<lparr>signalled := jid # signalled st\<rparr>)
          else (False, st))"

text \<open>The function as the cancel route calls it, on the engine's current state.\<close>

definition cancel_in :: "engine \<Rightarrow> string \<Rightarrow> bool" where
  "cancel_in st jid = fst (cancel_request jid st)"

text \<open>Removal: only a job in a terminal state is deleted from the registry.\<close>

definition remove_request :: "string \<Rightarrow> engine \<Rightarrow> bool \<times> engine" where
  "remove_request jid st =
     (case status_of jid (registry st) of
        None \<Rightarrow> (False, st)
      | Some s \<Rightarrow>
          if terminal s then (True, st\<lparr>registry := delete_job jid (registry st)\<rparr>)
          else (False, st))"

datatype event =
    Submit string string string
  | Admit
  | Finish string string
  | Cancel string
  | Remove string

fun step :: "nat \<Rightarrow> event \<Rightarrow> engine \<Rightarrow> engine" where
  "step limit (Submit jid mid name) st = submit jid mid name st"
| "step limit Admit st = admit limit st"
| "step limit (Finish jid s) st = finish jid s st"
| "step limit (Cancel jid) st = snd (cancel_request jid st)"
| "step limit (Remove jid) st = snd (remove_request jid st)"

text \<open>The states an execution goes through, one after each operation.\<close>

fun states :: "nat \<Rightarrow> event list \<Rightarrow> engine \<Rightarrow> engine list" where
  "states limit [] st = [st]"
| "states limit (ev # evs) st = st # states limit evs (step limit ev st)"

definition processing_jobs :: "engine \<Rightarrow> Job list" where
  "processing_jobs st = filter (\<lambda>j. status j = ''processing'') (registry st)"

text \<open>What the Scheduler maintains: the jobs that are processing are counted, and the
  count stays within the ceiling.\<close>

definition bounded :: "nat \<Rightarrow> engine \<Rightarrow> bool" where
  "bounded limit st =
     (length (processing_jobs st) \<le> processing_count st \<and> processing_count st \<le> limit)"

subsection \<open>Completed Transcode Store\<close>

text \<open>
  Modelled from the spec: \<^verbatim>\<open>delete_transcode\<close> of the completed module, which is not among
  the sources. Section 4.6: \<^verbatim>\<open>delete(filename) -> (success, message)\<close> removes both the
  output file and its metadata record, failing with a descriptive message if the file
  does not exist or cannot be removed; deletion of a file with no matching metadata is
  still attempted and reported distinctly. Section 7: metadata removed but file locked is
  a reportable outcome. Section 8: deleting a non-existent filename reports failure
  without side effects. The store under the transcode root is the names of the output
  files, the names that have a metadata record, and the names of the files that the file
  system refuses to remove. The wording of the messages is not specified.
\<close>

record store =
  files :: "string list"
  metadata :: "string list"
  locked :: "string list"

definition delete_transcode :: "string \<Rightarrow> store \<Rightarrow> (bool \<times> string) \<times> store" where
  "delete_transcode filename st =
     (if filename \<notin> set (files st)
      then ((False, ''File not found: '' @ filename), st)
      else if filename \<in> set (locked st)
      then ((False, ''Could not remove file: '' @ filename),
            st\<lparr>metadata := removeAll filename (metadata st)\<rparr>)
      else ((True, if filename \<in> set (metadata st)
                   then ''Deleted '' @ filename @ '' and its metadata''
                   else ''Deleted '' @ filename @ '' (no metadata found)''),
            st\<lparr>files := removeAll filename (files st),
               metadata := removeAll filename (metadata st)\<rparr>))"

text \<open>The function as the route calls it, on the store found under the transcode root.\<close>

definition delete_in :: "store \<Rightarrow> string \<Rightarrow> json \<Rightarrow> bool \<times> string" where
  "delete_in st filename transcode_root = fst (delete_transcode filename st)"

section \<open>Concrete instances\<close>

text \<open>A catalogue with one film, a disk that holds the film (an empty file) and its
  transcode, a printer of floats, and the transcoder operations that the handlers are
  given.\<close>

definition no_media :: "string \<Rightarrow> MediaItem option" where
  "no_media mid = None"

definition the_film :: MediaItem where
  "the_film = \<lparr>path = ''/media/film.mkv'', media_type = ''movie'',
               display_name = ''Film'', show_id = None\<rparr>"

definition one_film :: "string \<Rightarrow> MediaItem option" where
  "one_film mid = (if mid = ''m1'' then Some the_film else None)"

definition the_episode :: MediaItem where
  "the_episode = \<lparr>path = ''/media/show/e1.mkv'', media_type = ''episode'',
                  display_name = ''Episode 1'', show_id = Some ''s1''\<rparr>"

definition film_and_episode :: "string \<Rightarrow> MediaItem option" where
  "film_and_episode mid =
     (if mid = ''m1'' then Some the_film
      else if mid = ''e1'' then Some the_episode
      else None)"

definition no_show :: "string \<Rightarrow> Show option" where
  "no_show sid = None"

definition pending_job :: "string \<Rightarrow> string \<Rightarrow> MediaItem \<Rightarrow> string \<Rightarrow> Job" where
  "pending_job jid mid media_item name =
     \<lparr>job_id = jid, media_id = mid, preset_name = name, status = ''pending'',
      output_path = None\<rparr>"

definition the_job :: "string \<Rightarrow> string \<Rightarrow> Job" where
  "the_job jid s =
     \<lparr>job_id = jid, media_id = ''m1'', preset_name = ''low'', status = s,
      output_path = Some ''/transcodes/film.mkv''\<rparr>"

definition digits :: "rat \<Rightarrow> string" where
  "digits x = ''#''"

definition printer :: float_text where
  "printer = \<lparr>round2 = digits, fixed1 = digits\<rparr>"

definition on_disk :: "string \<Rightarrow> bool" where
  "on_disk p = (p = ''/media/film.mkv'' \<or> p = ''/transcodes/film.mkv'')"

definition size_on_disk :: "string \<Rightarrow> nat option" where
  "size_on_disk p =
     (if p = ''/media/film.mkv'' then Some 0
      else if p = ''/transcodes/film.mkv'' then Some 2048
      else None)"

definition resolved :: "string \<Rightarrow> string" where
  "resolved p = p"

definition disk :: filesystem where
  "disk = \<lparr>exists = on_disk, isfile = on_disk, getsize = size_on_disk, realpath = resolved\<rparr>"

definition unmapped :: "json \<Rightarrow> py_error + json" where
  "unmapped v = Inr v"

definition one_transcode :: "json \<Rightarrow> transcode_record list" where
  "one_transcode transcode_root =
     [(''original_path'', ''/media/film.mkv''), (''file_path'', ''/transcodes/film.mkv'')] # []"

definition burst :: "event list" where
  "burst = [Submit ''a'' ''m1'' ''low'', Submit ''b'' ''m1'' ''low'', Submit ''c'' ''m1'' ''low'',
            Admit, Admit, Admit]"

definition library :: store where
  "library = \<lparr>files = [''film.mkv'', ''clip.mkv''], metadata = [''film.mkv''], locked = []\<rparr>"

definition finished :: "event list" where
  "finished = [Submit ''a'' ''m1'' ''low'', Admit, Finish ''a'' ''completed'']"

section \<open>Properties of the configuration\<close>

lemma map_of_dict_set: "map_of (dict_set d k v) = (map_of d)(k \<mapsto> v)"
  by (induction d) (auto simp: fun_eq_iff)

lemma dict_get_default_dict_set:
  "dict_get_default (dict_set d k v) k' dflt = (if k' = k then v else dict_get_default d k' dflt)"
  by (simp add: dict_get_default_def map_of_dict_set)

lemma dict_get_dict_set:
  "dict_get (dict_set d k v) k' = (if k' = k then v else dict_get d k')"
  by (simp add: dict_get_def map_of_dict_set)

lemma dict_contains_dict_set:
  "dict_contains (dict_set d k v) k' = (k' = k \<or> dict_contains d k')"
  by (simp add: dict_contains_def map_of_dict_set)

lemma migrate_media_path_dict_set_presets:
  "migrate_media_path (dict_set d ''presets'' v) = migrate_media_path d"
  by (simp add: migrate_media_path_def dict_get_dict_set dict_contains_dict_set cong: if_cong)

lemma default_presets_not_None: "default_presets \<noteq> JNull"
  by (simp add: default_presets_def)

lemma presets_build_config:
  "presets (build_config d mp) = none_to_empty (dict_get_default d ''presets'' default_presets)"
  by (simp add: build_config_def post_init_def)

lemma max_concurrent_jobs_build_config:
  "max_concurrent_jobs (build_config d mp) = dict_get_default d ''max_concurrent_jobs'' (JInt 1)"
  by (simp add: build_config_def post_init_def)

lemma load_config_Absent: "load_config Absent = Inr (build_config default_config (JString ''/media''))"
  by (simp add: load_config_def read_config_data_def migrate_media_path_def default_config_def
      dict_get_def dict_contains_def)

lemma load_config_Document_Inr:
  assumes "load_config (Document doc) = Inr c"
  obtains d mp where "doc = JObject d" and "migrate_media_path d = Inr mp"
    and "c = build_config (if \<not> dict_contains d ''presets'' \<or> \<not> truthy (dict_get d ''presets'')
                            then dict_set d ''presets'' default_presets else d) mp"
proof (cases doc)
  case (JObject d)
  let ?d' = "if \<not> dict_contains d ''presets'' \<or> \<not> truthy (dict_get d ''presets'')
             then dict_set d ''presets'' default_presets else d"
  have rd: "read_config_data (Document doc) = Inr ?d'"
    using JObject by (simp add: read_config_data_def)
  have mg: "migrate_media_path ?d' = migrate_media_path d"
    by (simp add: migrate_media_path_dict_set_presets)
  from assms rd mg obtain mp where "migrate_media_path d = Inr mp" and "c = build_config ?d' mp"
    by (auto simp: load_config_def split: sum.splits)
  with JObject show ?thesis
    by (intro that [of d mp])
qed (use assms in \<open>simp_all add: load_config_def read_config_data_def\<close>)

lemma load_config_not_object:
  "(\<forall>d. doc \<noteq> JObject d) \<Longrightarrow> load_config (Document doc) = Inl TypeError"
  by (cases doc) (simp_all add: load_config_def read_config_data_def)

text \<open>A document that is a dict makes \<^verbatim>\<open>load_config\<close> return unless the migration of
  \<^verbatim>\<open>media_paths\<close> subscripts a value that has no element \<^verbatim>\<open>0\<close>.\<close>

lemma load_config_returns:
  "migrate_media_path d = Inr mp \<Longrightarrow> \<exists>c. load_config (Document (JObject d)) = Inr c"
  by (simp add: load_config_def read_config_data_def migrate_media_path_dict_set_presets)

lemma default_presets_low:
  "map fst (items default_presets) = [''high'', ''medium'', ''low'']
   \<and> preset_field default_presets ''low'' ''codec'' = JString ''hevc''
   \<and> preset_field default_presets ''low'' ''scale'' = JString ''480p''
   \<and> preset_field default_presets ''low'' ''container'' = JString ''.mkv''
   \<and> preset_field default_presets ''low'' ''crf'' = JInt 28
   \<and> preset_field default_presets ''low'' ''allow_fallback'' = JBool True"
  by (simp add: default_presets_def preset_of_def preset_field_def items_def dict_get_def)

text \<open>
  C4, as amended. The \<^verbatim>\<open>Config\<close> that \<^verbatim>\<open>load_config\<close> returns has \<^verbatim>\<open>max_concurrent_jobs\<close> equal
  to 1 when the configuration file is absent or its JSON object has no key
  \<^verbatim>\<open>max_concurrent_jobs\<close>, and otherwise equal to the value stored under that key, whatever it
  is: the value is not validated.
\<close>

theorem load_config_max_concurrent_jobs:
  assumes "load_config f = Inr c"
  shows "max_concurrent_jobs c =
           (case f of
              Document (JObject d) \<Rightarrow> dict_get_default d ''max_concurrent_jobs'' (JInt 1)
            | _ \<Rightarrow> JInt 1)"
proof (cases f)
  case Absent
  with assms have "c = build_config default_config (JString ''/media'')"
    by (simp add: load_config_Absent)
  with Absent show ?thesis
    by (simp add: max_concurrent_jobs_build_config default_config_def dict_get_default_def)
next
  case (Document doc)
  with assms obtain d mp where "doc = JObject d"
    and "c = build_config (if \<not> dict_contains d ''presets'' \<or> \<not> truthy (dict_get d ''presets'')
                            then dict_set d ''presets'' default_presets else d) mp"
    by (auto elim: load_config_Document_Inr)
  with Document show ?thesis
    by (simp add: max_concurrent_jobs_build_config dict_get_default_dict_set)
qed (use assms in \<open>simp_all add: load_config_def read_config_data_def\<close>)

theorem load_config_max_concurrent_jobs_witness:
  "load_config (Document (JObject [(''max_concurrent_jobs'', JInt 4)]))
     = Inr (build_config [(''max_concurrent_jobs'', JInt 4), (''presets'', default_presets)] JNull)
   \<and> max_concurrent_jobs
       (build_config [(''max_concurrent_jobs'', JInt 4), (''presets'', default_presets)] JNull)
     = JInt 4"
proof -
  have r: "load_config (Document (JObject [(''max_concurrent_jobs'', JInt 4)]))
     = Inr (build_config [(''max_concurrent_jobs'', JInt 4), (''presets'', default_presets)] JNull)"
    by (simp add: load_config_def read_config_data_def migrate_media_path_def dict_contains_def
        dict_get_def)
  from load_config_max_concurrent_jobs [OF r] r show ?thesis
    by (simp add: dict_get_default_def)
qed

text \<open>
  C4, as stated, fails: a configuration file holding \<^verbatim>\<open>{"max_concurrent_jobs": 0}\<close> is loaded
  without complaint and the returned \<^verbatim>\<open>Config\<close> has \<^verbatim>\<open>max_concurrent_jobs\<close> 0.
\<close>

theorem load_config_max_concurrent_jobs_counterexample:
  "map_sum id max_concurrent_jobs
     (load_config (Document (JObject [(''max_concurrent_jobs'', JInt 0)]))) = Inr (JInt 0)"
  by (simp add: load_config_def read_config_data_def migrate_media_path_def dict_contains_def
      dict_get_def max_concurrent_jobs_build_config dict_get_default_def)

text \<open>
  C8. When the configuration file does not exist, or holds a JSON object whose \<^verbatim>\<open>presets\<close>
  key is absent or has an empty (falsy) value, the \<^verbatim>\<open>Config\<close> that \<^verbatim>\<open>load_config\<close> returns
  holds exactly the default presets \<^verbatim>\<open>high\<close>, \<^verbatim>\<open>medium\<close> and \<^verbatim>\<open>low\<close>, and \<^verbatim>\<open>low\<close> has codec
  hevc, scale 480p, container .mkv, crf 28 and allow_fallback true.
\<close>

theorem load_config_default_presets:
  assumes "load_config f = Inr c"
    and "f = Absent \<or>
         (\<exists>d. f = Document (JObject d)
              \<and> (\<not> dict_contains d ''presets'' \<or> \<not> truthy (dict_get d ''presets'')))"
  shows "presets c = default_presets
         \<and> map fst (items (presets c)) = [''high'', ''medium'', ''low'']
         \<and> preset_field (presets c) ''low'' ''codec'' = JString ''hevc''
         \<and> preset_field (presets c) ''low'' ''scale'' = JString ''480p''
         \<and> preset_field (presets c) ''low'' ''container'' = JString ''.mkv''
         \<and> preset_field (presets c) ''low'' ''crf'' = JInt 28
         \<and> preset_field (presets c) ''low'' ''allow_fallback'' = JBool True"
proof -
  have "presets c = default_presets"
    using assms(2)
  proof
    assume "f = Absent"
    with assms(1) have "c = build_config default_config (JString ''/media'')"
      by (simp add: load_config_Absent)
    then show ?thesis
      by (simp add: presets_build_config default_config_def
          dict_get_default_def none_to_empty_def default_presets_not_None)
  next
    assume "\<exists>d. f = Document (JObject d)
              \<and> (\<not> dict_contains d ''presets'' \<or> \<not> truthy (dict_get d ''presets''))"
    then obtain d where f: "f = Document (JObject d)"
      and d: "\<not> dict_contains d ''presets'' \<or> \<not> truthy (dict_get d ''presets'')"
      by blast
    from assms(1) f obtain mp where
      "c = build_config (if \<not> dict_contains d ''presets'' \<or> \<not> truthy (dict_get d ''presets'')
                            then dict_set d ''presets'' default_presets else d) mp"
      by (auto elim: load_config_Document_Inr)
    with d have "c = build_config (dict_set d ''presets'' default_presets) mp"
      by simp
    then show ?thesis
      by (simp add: presets_build_config dict_get_default_dict_set none_to_empty_def
          default_presets_not_None)
  qed
  with default_presets_low show ?thesis
    by simp
qed

theorem load_config_default_presets_witness:
  "load_config (Document (JObject [(''transcode_path'', JString ''/out''), (''presets'', JObject [])]))
     = Inr (build_config [(''transcode_path'', JString ''/out''), (''presets'', default_presets)] JNull)
   \<and> presets (build_config [(''transcode_path'', JString ''/out''), (''presets'', default_presets)] JNull)
     = default_presets
   \<and> preset_field
       (presets (build_config [(''transcode_path'', JString ''/out''), (''presets'', default_presets)] JNull))
       ''low'' ''crf'' = JInt 28"
proof -
  let ?d = "[(''transcode_path'', JString ''/out''), (''presets'', JObject [])]"
  have r: "load_config (Document (JObject ?d))
     = Inr (build_config [(''transcode_path'', JString ''/out''), (''presets'', default_presets)] JNull)"
    by (simp add: load_config_def read_config_data_def migrate_media_path_def dict_contains_def
        dict_get_def)
  have h: "Document (JObject ?d) = Absent \<or>
         (\<exists>d. Document (JObject ?d) = Document (JObject d)
              \<and> (\<not> dict_contains d ''presets'' \<or> \<not> truthy (dict_get d ''presets'')))"
    by (simp add: dict_get_def)
  from load_config_default_presets [OF r h] r show ?thesis
    by blast
qed

section \<open>Properties of the user interface blueprint\<close>

lemma subscript0_error:
  "subscript0 v = Inl e \<Longrightarrow> e = IndexError \<or> e = KeyError \<or> e = TypeError"
  by (cases v rule: subscript0.cases) auto

lemma load_config_error:
  assumes "load_config f = Inl e"
  shows "e \<noteq> ZeroDivisionError"
proof (cases "read_config_data f")
  case (Inl e')
  with assms have "e = e'"
    by (simp add: load_config_def)
  moreover from Inl have "e' \<noteq> ZeroDivisionError"
  proof (cases f)
    case (Document doc)
    with Inl show ?thesis
      by (cases doc) (auto simp: read_config_data_def split: if_splits)
  qed (auto simp: read_config_data_def)
  ultimately show ?thesis
    by simp
next
  case (Inr d)
  with assms have "migrate_media_path d = Inl e"
    by (simp add: load_config_def split: sum.splits)
  then have "subscript0 (dict_get d ''media_paths'') = Inl e"
    by (simp add: migrate_media_path_def Let_def split: if_splits)
  then show ?thesis
    by (auto dest: subscript0_error)
qed

subsection \<open>Sizes and the compression percentage\<close>

lemma compression_pct_guarded:
  "0 < file_size_bytes \<Longrightarrow>
     compression_pct output_size_bytes file_size_bytes =
       Inr (100 - of_nat output_size_bytes / of_nat file_size_bytes * 100)"
  by (simp add: compression_pct_def)

lemma job_file_size_error: "job_file_size T fs j media_item = Inl e \<Longrightarrow> e = OSError"
  by (auto simp: job_file_size_def Let_def compression_pct_guarded
      split: option.splits if_splits sum.splits)

lemma job_file_size_zero:
  assumes "getsize fs (path media_item) = Some 0"
  shows "job_file_size T fs j media_item = Inr (format_file_size T 0)
         \<or> job_file_size T fs j media_item = Inl OSError"
  using assms by (auto simp: job_file_size_def Let_def split: option.splits)

lemma size_comparison_error:
  "size_comparison T fs t = Inl e \<Longrightarrow> e = OSError \<or> e = KeyError"
  by (auto simp: size_comparison_def Let_def compression_pct_guarded
      split: option.splits if_splits sum.splits)

lemma size_comparison_zero:
  assumes "map_of t ''original_path'' = Some original_path"
    and "exists fs original_path"
    and "getsize fs original_path = Some 0"
    and "map_of t ''file_path'' = Some file_path"
    and "getsize fs file_path = Some n"
  shows "size_comparison T fs t = Inr (format_file_size T n)"
  using assms by (simp add: size_comparison_def)

lemma completed_loop_error:
  "completed_loop T fs ts = Inl e \<Longrightarrow> e = OSError \<or> e = KeyError"
  by (induction ts arbitrary: e) (auto split: sum.splits dest: size_comparison_error)

lemma completed_error:
  assumes "completed T cf get_completed_transcodes fs = Inl e"
  shows "e \<noteq> ZeroDivisionError"
proof (cases "load_config cf")
  case (Inl e')
  with assms show ?thesis
    by (auto simp: completed_def dest: load_config_error)
next
  case (Inr config)
  with assms show ?thesis
    by (auto simp: completed_def split: sum.splits dest: completed_loop_error)
qed

subsection \<open>The jobs view\<close>

lemma job_entry_returns: "\<exists>jd. job_entry T get_media get_show fs j = Inr jd \<and> job jd = j"
proof (cases "get_media (media_id j)")
  case None
  then show ?thesis
    by (simp add: job_entry_def)
next
  case (Some media_item)
  show ?thesis
  proof (cases "job_file_size T fs j media_item")
    case (Inl e)
    then have "e = OSError"
      by (rule job_file_size_error)
    with Inl Some show ?thesis
      by (simp add: job_entry_def)
  next
    case (Inr size_text)
    with Some show ?thesis
      by (simp add: job_entry_def)
  qed
qed

lemma job_categorize:
  "map job (active_jobs (categorize jd g)) =
     map job (active_jobs g) @ filter (\<lambda>j. status j = ''processing'' \<or> status j = ''pending'') [job jd]"
  "map job (completed_jobs (categorize jd g)) =
     map job (completed_jobs g) @ filter (\<lambda>j. status j = ''completed'') [job jd]"
  "map job (failed_jobs (categorize jd g)) =
     map job (failed_jobs g) @
       filter (\<lambda>j. status j \<noteq> ''processing'' \<and> status j \<noteq> ''pending'' \<and> status j \<noteq> ''completed'')
         [job jd]"
  by (auto simp: categorize_def)

lemma jobs_loop_groups:
  "\<exists>g'. jobs_loop T get_media get_show fs js g = Inr g'
     \<and> map job (active_jobs g') =
         map job (active_jobs g) @ filter (\<lambda>j. status j = ''processing'' \<or> status j = ''pending'') js
     \<and> map job (completed_jobs g') =
         map job (completed_jobs g) @ filter (\<lambda>j. status j = ''completed'') js
     \<and> map job (failed_jobs g') =
         map job (failed_jobs g) @
           filter (\<lambda>j. status j \<noteq> ''processing'' \<and> status j \<noteq> ''pending''
                      \<and> status j \<noteq> ''completed'') js"
proof (induction js arbitrary: g)
  case Nil
  show ?case by simp
next
  case (Cons j js)
  obtain jd where jd: "job_entry T get_media get_show fs j = Inr jd" "job jd = j"
    using job_entry_returns by blast
  from Cons.IH [of "categorize jd g"] obtain g' where
    "jobs_loop T get_media get_show fs js (categorize jd g) = Inr g'"
    "map job (active_jobs g') =
       map job (active_jobs (categorize jd g)) @
         filter (\<lambda>j. status j = ''processing'' \<or> status j = ''pending'') js"
    "map job (completed_jobs g') =
       map job (completed_jobs (categorize jd g)) @ filter (\<lambda>j. status j = ''completed'') js"
    "map job (failed_jobs g') =
       map job (failed_jobs (categorize jd g)) @
         filter (\<lambda>j. status j \<noteq> ''processing'' \<and> status j \<noteq> ''pending''
                    \<and> status j \<noteq> ''completed'') js"
    by blast
  with jd show ?case
    by (intro exI [of _ g']) (simp add: job_categorize)
qed

lemma mset_three_filters:
  "mset (filter (\<lambda>j. status j = ''processing'' \<or> status j = ''pending'') js)
   + mset (filter (\<lambda>j. status j = ''completed'') js)
   + mset (filter (\<lambda>j. status j \<noteq> ''processing'' \<and> status j \<noteq> ''pending''
                      \<and> status j \<noteq> ''completed'') js)
   = mset js"
  by (induction js) auto

text \<open>
  C5. For every collection of jobs in the registry, the jobs view returns three groups:
  the active group holds exactly the jobs whose status is \<^verbatim>\<open>processing\<close> or \<^verbatim>\<open>pending\<close>, the
  completed group exactly the jobs whose status is \<^verbatim>\<open>completed\<close>, and the failed group
  every other job; the three groups together hold each job of the registry exactly once.
\<close>

theorem jobs_partition:
  "\<exists>active completed_group failed.
     jobs T get_media get_show fs JOBS
       = Inr \<lparr>calls = [], body = RenderJobs active completed_group failed\<rparr>
     \<and> mset (map job active)
         = mset (filter (\<lambda>j. status j = ''processing'' \<or> status j = ''pending'') JOBS)
     \<and> map job completed_group = filter (\<lambda>j. status j = ''completed'') JOBS
     \<and> map job failed
         = filter (\<lambda>j. status j \<noteq> ''processing'' \<and> status j \<noteq> ''pending''
                        \<and> status j \<noteq> ''completed'') JOBS
     \<and> mset (map job active) + mset (map job completed_group) + mset (map job failed)
         = mset JOBS"
proof -
  let ?g = "\<lparr>active_jobs = [], completed_jobs = [], failed_jobs = []\<rparr>"
  obtain g' where loop: "jobs_loop T get_media get_show fs JOBS ?g = Inr g'"
    and a: "map job (active_jobs g') =
              filter (\<lambda>j. status j = ''processing'' \<or> status j = ''pending'') JOBS"
    and c: "map job (completed_jobs g') = filter (\<lambda>j. status j = ''completed'') JOBS"
    and f: "map job (failed_jobs g') =
              filter (\<lambda>j. status j \<noteq> ''processing'' \<and> status j \<noteq> ''pending''
                         \<and> status j \<noteq> ''completed'') JOBS"
    using jobs_loop_groups [of T get_media get_show fs JOBS ?g] by auto
  let ?active = "sort_key processing_first (active_jobs g')"
  have sorted: "mset (map job ?active) = mset (map job (active_jobs g'))"
    by simp
  have "jobs T get_media get_show fs JOBS
          = Inr \<lparr>calls = [], body = RenderJobs ?active (completed_jobs g') (failed_jobs g')\<rparr>"
    using loop by (simp add: jobs_def)
  moreover have "mset (map job ?active)
      = mset (filter (\<lambda>j. status j = ''processing'' \<or> status j = ''pending'') JOBS)"
    using sorted a by simp
  moreover have "mset (map job ?active) + mset (map job (completed_jobs g'))
      + mset (map job (failed_jobs g')) = mset JOBS"
    unfolding sorted a c f by (rule mset_three_filters)
  ultimately show ?thesis
    using c f by blast
qed

theorem jobs_partition_witness:
  "jobs printer one_film no_show disk
     [the_job ''j1'' ''failed'', the_job ''j2'' ''pending'', the_job ''j3'' ''completed'',
      the_job ''j4'' ''processing'', the_job ''j5'' ''cancelled'']
   = Inr \<lparr>calls = [],
          body = RenderJobs
            [\<lparr>job = the_job ''j4'' ''processing'', media_title = ''Film'', file_size = ''# KB''\<rparr>,
             \<lparr>job = the_job ''j2'' ''pending'', media_title = ''Film'', file_size = ''# KB''\<rparr>]
            [\<lparr>job = the_job ''j3'' ''completed'', media_title = ''Film'', file_size = ''# KB''\<rparr>]
            [\<lparr>job = the_job ''j1'' ''failed'', media_title = ''Film'', file_size = ''# KB''\<rparr>,
             \<lparr>job = the_job ''j5'' ''cancelled'', media_title = ''Film'', file_size = ''# KB''\<rparr>]\<rparr>"
  using jobs_partition [of printer one_film no_show disk
      "[the_job ''j1'' ''failed'', the_job ''j2'' ''pending'', the_job ''j3'' ''completed'',
        the_job ''j4'' ''processing'', the_job ''j5'' ''cancelled'']"]
  by (simp add: jobs_def job_entry_def job_file_size_def job_media_title_def categorize_def
      processing_first_def one_film_def the_film_def the_job_def disk_def on_disk_def
      size_on_disk_def printer_def digits_def format_file_size_def)

subsection \<open>What the two views render\<close>

lemma job_file_size_percentage:
  assumes "getsize fs (path media_item) = Some n" and "0 < n"
    and "status j = ''completed''" and "output_path j = Some out" and "out \<noteq> []"
    and "exists fs out" and "getsize fs out = Some k"
  shows "job_file_size T fs j media_item =
           Inr (smaller_text T (format_file_size T n) (format_file_size T k)
                  (100 - of_nat k / of_nat n * 100))"
  using assms by (simp add: job_file_size_def compression_pct_guarded)

lemma job_entry_size:
  assumes "job_entry T get_media get_show fs j = Inr jd"
    and "get_media (media_id j) = Some media_item"
  shows "job_file_size T fs j media_item = Inr (file_size jd)
         \<or> (job_file_size T fs j media_item = Inl OSError \<and> file_size jd = ''N/A'')"
proof (cases "job_file_size T fs j media_item")
  case (Inl e)
  then have "e = OSError"
    by (rule job_file_size_error)
  with Inl assms show ?thesis
    by (auto simp: job_entry_def)
next
  case (Inr size_text)
  with assms show ?thesis
    by (auto simp: job_entry_def)
qed

lemma job_entry_zero:
  assumes "job_entry T get_media get_show fs j = Inr jd"
    and "get_media (media_id j) = Some media_item"
    and "getsize fs (path media_item) = Some 0"
  shows "file_size jd = format_file_size T 0 \<or> file_size jd = ''N/A''"
  using job_entry_size [OF assms(1,2)] job_file_size_zero [OF assms(3), of T j]
  by auto

lemma job_entry_percentage:
  assumes "job_entry T get_media get_show fs j = Inr jd"
    and "get_media (media_id j) = Some media_item"
    and "getsize fs (path media_item) = Some n" and "0 < n"
    and "status j = ''completed''" and "output_path j = Some out" and "out \<noteq> []"
    and "exists fs out" and "getsize fs out = Some k"
  shows "file_size jd = smaller_text T (format_file_size T n) (format_file_size T k)
                          (100 - of_nat k / of_nat n * 100)"
  using job_entry_size [OF assms(1,2)] job_file_size_percentage [OF assms(3-9), of T]
  by auto

lemma categorize_entries:
  "set (active_jobs (categorize jd g) @ completed_jobs (categorize jd g)
          @ failed_jobs (categorize jd g))
   = insert jd (set (active_jobs g @ completed_jobs g @ failed_jobs g))"
  by (auto simp: categorize_def)

lemma jobs_loop_entries:
  assumes "jobs_loop T get_media get_show fs js g = Inr g'"
    and "\<forall>jd \<in> set (active_jobs g @ completed_jobs g @ failed_jobs g).
           job_entry T get_media get_show fs (job jd) = Inr jd"
  shows "\<forall>jd \<in> set (active_jobs g' @ completed_jobs g' @ failed_jobs g').
           job_entry T get_media get_show fs (job jd) = Inr jd"
  using assms
proof (induction js arbitrary: g)
  case Nil
  then show ?case by simp
next
  case (Cons j js)
  obtain jd where jd: "job_entry T get_media get_show fs j = Inr jd" "job jd = j"
    using job_entry_returns by blast
  with Cons.prems(1) have loop: "jobs_loop T get_media get_show fs js (categorize jd g) = Inr g'"
    by simp
  have "\<forall>x \<in> set (active_jobs (categorize jd g) @ completed_jobs (categorize jd g)
          @ failed_jobs (categorize jd g)). job_entry T get_media get_show fs (job x) = Inr x"
    unfolding categorize_entries using jd Cons.prems(2) by auto
  with loop show ?case
    by (rule Cons.IH)
qed

lemma jobs_rendering:
  "\<exists>active completed_group failed.
     jobs T get_media get_show fs JOBS
       = Inr \<lparr>calls = [], body = RenderJobs active completed_group failed\<rparr>
     \<and> mset (map job (active @ completed_group @ failed)) = mset JOBS
     \<and> (\<forall>jd \<in> set (active @ completed_group @ failed).
           job_entry T get_media get_show fs (job jd) = Inr jd)"
proof -
  let ?g = "\<lparr>active_jobs = [], completed_jobs = [], failed_jobs = []\<rparr>"
  obtain g' where loop: "jobs_loop T get_media get_show fs JOBS ?g = Inr g'"
    and a: "map job (active_jobs g') =
              filter (\<lambda>j. status j = ''processing'' \<or> status j = ''pending'') JOBS"
    and c: "map job (completed_jobs g') = filter (\<lambda>j. status j = ''completed'') JOBS"
    and f: "map job (failed_jobs g') =
              filter (\<lambda>j. status j \<noteq> ''processing'' \<and> status j \<noteq> ''pending''
                         \<and> status j \<noteq> ''completed'') JOBS"
    using jobs_loop_groups [of T get_media get_show fs JOBS ?g] by auto
  let ?active = "sort_key processing_first (active_jobs g')"
  have view: "jobs T get_media get_show fs JOBS
          = Inr \<lparr>calls = [], body = RenderJobs ?active (completed_jobs g') (failed_jobs g')\<rparr>"
    using loop by (simp add: jobs_def)
  have "mset (map job ?active) = mset (map job (active_jobs g'))"
    by simp
  then have all: "mset (map job (?active @ completed_jobs g' @ failed_jobs g')) = mset JOBS"
    using mset_three_filters [of JOBS] by (simp add: a c f add.assoc)
  have "\<forall>jd \<in> set (active_jobs g' @ completed_jobs g' @ failed_jobs g').
           job_entry T get_media get_show fs (job jd) = Inr jd"
    using loop by (rule jobs_loop_entries) simp
  then have "\<forall>jd \<in> set (?active @ completed_jobs g' @ failed_jobs g').
           job_entry T get_media get_show fs (job jd) = Inr jd"
    by simp
  with view all show ?thesis
    by blast
qed

lemma size_comparison_percentage:
  assumes "map_of t ''original_path'' = Some original_path"
    and "exists fs original_path"
    and "getsize fs original_path = Some m" and "0 < m"
    and "map_of t ''file_path'' = Some file_path"
    and "getsize fs file_path = Some n"
  shows "size_comparison T fs t =
           Inr (smaller_text T (format_file_size T m) (format_file_size T n)
                  (100 - of_nat n / of_nat m * 100))"
  using assms by (simp add: size_comparison_def compression_pct_guarded)

lemma completed_loop_Inl:
  "completed_loop T fs ts = Inl e \<Longrightarrow> \<exists>t \<in> set ts. size_comparison T fs t = Inl e"
  by (induction ts) (auto split: sum.splits)

lemma completed_loop_Inr:
  "completed_loop T fs ts = Inr ts' \<Longrightarrow>
     list_all2 (\<lambda>t t'. \<exists>text. size_comparison T fs t = Inr text
                          \<and> t' = dict_set t ''size_comparison'' text) ts ts'"
  by (induction ts arbitrary: ts') (auto split: sum.splits)

lemma completed_rendering:
  assumes "load_config cf = Inr config"
  shows "case completed T cf get_completed_transcodes fs of
           Inl e \<Rightarrow>
             \<exists>t \<in> set (get_completed_transcodes (transcode_path config)).
               size_comparison T fs t = Inl e
         | Inr r \<Rightarrow>
             \<exists>ts'. r = \<lparr>calls = [], body = RenderCompleted ts'\<rparr>
               \<and> list_all2
                   (\<lambda>t t'.
                      (\<exists>text. size_comparison T fs t = Inr text
                         \<and> t' = dict_set t ''size_comparison'' text)
                      \<and> (\<forall>original_path file_path n.
                            map_of t ''original_path'' = Some original_path
                            \<and> exists fs original_path
                            \<and> getsize fs original_path = Some 0
                            \<and> map_of t ''file_path'' = Some file_path
                            \<and> getsize fs file_path = Some n \<longrightarrow>
                            map_of t' ''size_comparison'' = Some (format_file_size T n))
                      \<and> (\<forall>original_path file_path m n.
                            map_of t ''original_path'' = Some original_path
                            \<and> exists fs original_path
                            \<and> getsize fs original_path = Some m \<and> 0 < m
                            \<and> map_of t ''file_path'' = Some file_path
                            \<and> getsize fs file_path = Some n \<longrightarrow>
                            map_of t' ''size_comparison''
                              = Some (smaller_text T (format_file_size T m) (format_file_size T n)
                                        (100 - of_nat n / of_nat m * 100))))
                   (get_completed_transcodes (transcode_path config)) ts'"
proof (cases "completed_loop T fs (get_completed_transcodes (transcode_path config))")
  case (Inl e)
  then have "\<exists>t \<in> set (get_completed_transcodes (transcode_path config)).
      size_comparison T fs t = Inl e"
    by (rule completed_loop_Inl)
  with assms Inl show ?thesis
    by (simp add: completed_def)
next
  case (Inr ts')
  then have "list_all2 (\<lambda>t t'. \<exists>text. size_comparison T fs t = Inr text
                          \<and> t' = dict_set t ''size_comparison'' text)
      (get_completed_transcodes (transcode_path config)) ts'"
    by (rule completed_loop_Inr)
  then have "list_all2
                   (\<lambda>t t'.
                      (\<exists>text. size_comparison T fs t = Inr text
                         \<and> t' = dict_set t ''size_comparison'' text)
                      \<and> (\<forall>original_path file_path n.
                            map_of t ''original_path'' = Some original_path
                            \<and> exists fs original_path
                            \<and> getsize fs original_path = Some 0
                            \<and> map_of t ''file_path'' = Some file_path
                            \<and> getsize fs file_path = Some n \<longrightarrow>
                            map_of t' ''size_comparison'' = Some (format_file_size T n))
                      \<and> (\<forall>original_path file_path m n.
                            map_of t ''original_path'' = Some original_path
                            \<and> exists fs original_path
                            \<and> getsize fs original_path = Some m \<and> 0 < m
                            \<and> map_of t ''file_path'' = Some file_path
                            \<and> getsize fs file_path = Some n \<longrightarrow>
                            map_of t' ''size_comparison''
                              = Some (smaller_text T (format_file_size T m) (format_file_size T n)
                                        (100 - of_nat n / of_nat m * 100))))
                   (get_completed_transcodes (transcode_path config)) ts'"
  proof (rule list_all2_mono)
    fix t t'
    assume "\<exists>text. size_comparison T fs t = Inr text \<and> t' = dict_set t ''size_comparison'' text"
    then obtain sz where rendered: "size_comparison T fs t = Inr sz"
      and updated: "t' = dict_set t ''size_comparison'' sz"
      by blast
    have shown: "map_of t' ''size_comparison'' = Some sz"
      by (simp add: updated map_of_dict_set)
    have zero: "\<forall>original_path file_path n.
                            map_of t ''original_path'' = Some original_path
                            \<and> exists fs original_path
                            \<and> getsize fs original_path = Some 0
                            \<and> map_of t ''file_path'' = Some file_path
                            \<and> getsize fs file_path = Some n \<longrightarrow>
                            map_of t' ''size_comparison'' = Some (format_file_size T n)"
      using rendered shown size_comparison_zero [of t _ fs _ _ T] by auto
    have positive: "\<forall>original_path file_path m n.
                            map_of t ''original_path'' = Some original_path
                            \<and> exists fs original_path
                            \<and> getsize fs original_path = Some m \<and> 0 < m
                            \<and> map_of t ''file_path'' = Some file_path
                            \<and> getsize fs file_path = Some n \<longrightarrow>
                            map_of t' ''size_comparison''
                              = Some (smaller_text T (format_file_size T m) (format_file_size T n)
                                        (100 - of_nat n / of_nat m * 100))"
      using rendered shown size_comparison_percentage [of t _ fs _ _ _ T] by auto
    from rendered updated zero positive
    show "(\<exists>text. size_comparison T fs t = Inr text
                         \<and> t' = dict_set t ''size_comparison'' text)
                      \<and> (\<forall>original_path file_path n.
                            map_of t ''original_path'' = Some original_path
                            \<and> exists fs original_path
                            \<and> getsize fs original_path = Some 0
                            \<and> map_of t ''file_path'' = Some file_path
                            \<and> getsize fs file_path = Some n \<longrightarrow>
                            map_of t' ''size_comparison'' = Some (format_file_size T n))
                      \<and> (\<forall>original_path file_path m n.
                            map_of t ''original_path'' = Some original_path
                            \<and> exists fs original_path
                            \<and> getsize fs original_path = Some m \<and> 0 < m
                            \<and> map_of t ''file_path'' = Some file_path
                            \<and> getsize fs file_path = Some n \<longrightarrow>
                            map_of t' ''size_comparison''
                              = Some (smaller_text T (format_file_size T m) (format_file_size T n)
                                        (100 - of_nat n / of_nat m * 100)))"
      by blast
  qed
  with assms Inr show ?thesis
    by (simp add: completed_def)
qed

text \<open>
  C9. Neither the jobs view nor the completed view ever raises \<^verbatim>\<open>ZeroDivisionError\<close>: the
  percentage is computed only where the size of the original file is positive. The jobs
  view renders an entry for every job; the entry of a job whose original file is empty
  shows the plain size of the original (or \<^verbatim>\<open>N/A\<close> after an \<^verbatim>\<open>OSError\<close>), and the entry of a
  completed job with a non-empty original and an existing output shows both sizes and the
  percentage. The completed view renders every record it was given, or raises the error
  of one of them; the record of an empty original shows the plain size of the output, the
  record of a non-empty original shows both sizes and the percentage.
\<close>

theorem views_never_divide_by_zero:
  "jobs T get_media get_show fs JOBS \<noteq> Inl ZeroDivisionError
   \<and> completed T cf get_completed_transcodes fs \<noteq> Inl ZeroDivisionError
   \<and> (getsize fs (path media_item) = Some 0 \<longrightarrow>
        job_file_size T fs j media_item = Inr (format_file_size T 0)
        \<or> job_file_size T fs j media_item = Inl OSError)
   \<and> (map_of t ''original_path'' = Some original_path \<and> exists fs original_path
        \<and> getsize fs original_path = Some 0
        \<and> map_of t ''file_path'' = Some file_path \<and> getsize fs file_path = Some n \<longrightarrow>
        size_comparison T fs t = Inr (format_file_size T n))
   \<and> (\<exists>active completed_group failed.
        jobs T get_media get_show fs JOBS
          = Inr \<lparr>calls = [], body = RenderJobs active completed_group failed\<rparr>
        \<and> mset (map job (active @ completed_group @ failed)) = mset JOBS
        \<and> (\<forall>jd \<in> set (active @ completed_group @ failed). \<forall>item.
              get_media (media_id (job jd)) = Some item \<and> getsize fs (path item) = Some 0 \<longrightarrow>
              file_size jd = format_file_size T 0 \<or> file_size jd = ''N/A'')
        \<and> (\<forall>jd \<in> set (active @ completed_group @ failed). \<forall>item size out k.
              get_media (media_id (job jd)) = Some item
              \<and> getsize fs (path item) = Some size \<and> 0 < size
              \<and> status (job jd) = ''completed'' \<and> output_path (job jd) = Some out
              \<and> out \<noteq> [] \<and> exists fs out \<and> getsize fs out = Some k \<longrightarrow>
              file_size jd = smaller_text T (format_file_size T size) (format_file_size T k)
                               (100 - of_nat k / of_nat size * 100)))
   \<and> (\<forall>config. load_config cf = Inr config \<longrightarrow>
        (case completed T cf get_completed_transcodes fs of
           Inl e \<Rightarrow>
             \<exists>t \<in> set (get_completed_transcodes (transcode_path config)).
               size_comparison T fs t = Inl e
         | Inr r \<Rightarrow>
             \<exists>ts'. r = \<lparr>calls = [], body = RenderCompleted ts'\<rparr>
               \<and> list_all2
                   (\<lambda>t t'.
                      (\<exists>text. size_comparison T fs t = Inr text
                         \<and> t' = dict_set t ''size_comparison'' text)
                      \<and> (\<forall>original_path file_path n.
                            map_of t ''original_path'' = Some original_path
                            \<and> exists fs original_path
                            \<and> getsize fs original_path = Some 0
                            \<and> map_of t ''file_path'' = Some file_path
                            \<and> getsize fs file_path = Some n \<longrightarrow>
                            map_of t' ''size_comparison'' = Some (format_file_size T n))
                      \<and> (\<forall>original_path file_path m n.
                            map_of t ''original_path'' = Some original_path
                            \<and> exists fs original_path
                            \<and> getsize fs original_path = Some m \<and> 0 < m
                            \<and> map_of t ''file_path'' = Some file_path
                            \<and> getsize fs file_path = Some n \<longrightarrow>
                            map_of t' ''size_comparison''
                              = Some (smaller_text T (format_file_size T m) (format_file_size T n)
                                        (100 - of_nat n / of_nat m * 100))))
                   (get_completed_transcodes (transcode_path config)) ts'))"
proof (intro conjI)
  obtain active completed_group failed where
    view: "jobs T get_media get_show fs JOBS
          = Inr \<lparr>calls = [], body = RenderJobs active completed_group failed\<rparr>"
    and all: "mset (map job (active @ completed_group @ failed)) = mset JOBS"
    and entries: "\<forall>jd \<in> set (active @ completed_group @ failed).
           job_entry T get_media get_show fs (job jd) = Inr jd"
    using jobs_rendering [of T get_media get_show fs JOBS] by blast
  from view show "jobs T get_media get_show fs JOBS \<noteq> Inl ZeroDivisionError"
    by simp
  show "completed T cf get_completed_transcodes fs \<noteq> Inl ZeroDivisionError"
    using completed_error by blast
  show "getsize fs (path media_item) = Some 0 \<longrightarrow>
        job_file_size T fs j media_item = Inr (format_file_size T 0)
        \<or> job_file_size T fs j media_item = Inl OSError"
    using job_file_size_zero by blast
  show "map_of t ''original_path'' = Some original_path \<and> exists fs original_path
        \<and> getsize fs original_path = Some 0
        \<and> map_of t ''file_path'' = Some file_path \<and> getsize fs file_path = Some n \<longrightarrow>
        size_comparison T fs t = Inr (format_file_size T n)"
    using size_comparison_zero by blast
  have zero: "\<forall>jd \<in> set (active @ completed_group @ failed). \<forall>item.
              get_media (media_id (job jd)) = Some item \<and> getsize fs (path item) = Some 0 \<longrightarrow>
              file_size jd = format_file_size T 0 \<or> file_size jd = ''N/A''"
    using entries job_entry_zero by blast
  have positive: "\<forall>jd \<in> set (active @ completed_group @ failed). \<forall>item size out k.
              get_media (media_id (job jd)) = Some item
              \<and> getsize fs (path item) = Some size \<and> 0 < size
              \<and> status (job jd) = ''completed'' \<and> output_path (job jd) = Some out
              \<and> out \<noteq> [] \<and> exists fs out \<and> getsize fs out = Some k \<longrightarrow>
              file_size jd = smaller_text T (format_file_size T size) (format_file_size T k)
                               (100 - of_nat k / of_nat size * 100)"
  proof (intro ballI allI impI)
    fix jd item size out k
    assume jd: "jd \<in> set (active @ completed_group @ failed)"
      and h: "get_media (media_id (job jd)) = Some item
              \<and> getsize fs (path item) = Some size \<and> 0 < size
              \<and> status (job jd) = ''completed'' \<and> output_path (job jd) = Some out
              \<and> out \<noteq> [] \<and> exists fs out \<and> getsize fs out = Some k"
    from entries jd have "job_entry T get_media get_show fs (job jd) = Inr jd"
      by blast
    with h show "file_size jd = smaller_text T (format_file_size T size) (format_file_size T k)
                               (100 - of_nat k / of_nat size * 100)"
      by (intro job_entry_percentage [of T get_media get_show fs "job jd" jd item size out k])
        simp_all
  qed
  from view all zero positive
  show "\<exists>active completed_group failed.
        jobs T get_media get_show fs JOBS
          = Inr \<lparr>calls = [], body = RenderJobs active completed_group failed\<rparr>
        \<and> mset (map job (active @ completed_group @ failed)) = mset JOBS
        \<and> (\<forall>jd \<in> set (active @ completed_group @ failed). \<forall>item.
              get_media (media_id (job jd)) = Some item \<and> getsize fs (path item) = Some 0 \<longrightarrow>
              file_size jd = format_file_size T 0 \<or> file_size jd = ''N/A'')
        \<and> (\<forall>jd \<in> set (active @ completed_group @ failed). \<forall>item size out k.
              get_media (media_id (job jd)) = Some item
              \<and> getsize fs (path item) = Some size \<and> 0 < size
              \<and> status (job jd) = ''completed'' \<and> output_path (job jd) = Some out
              \<and> out \<noteq> [] \<and> exists fs out \<and> getsize fs out = Some k \<longrightarrow>
              file_size jd = smaller_text T (format_file_size T size) (format_file_size T k)
                               (100 - of_nat k / of_nat size * 100))"
    by blast
  show "\<forall>config. load_config cf = Inr config \<longrightarrow>
        (case completed T cf get_completed_transcodes fs of
           Inl e \<Rightarrow>
             \<exists>t \<in> set (get_completed_transcodes (transcode_path config)).
               size_comparison T fs t = Inl e
         | Inr r \<Rightarrow>
             \<exists>ts'. r = \<lparr>calls = [], body = RenderCompleted ts'\<rparr>
               \<and> list_all2
                   (\<lambda>t t'.
                      (\<exists>text. size_comparison T fs t = Inr text
                         \<and> t' = dict_set t ''size_comparison'' text)
                      \<and> (\<forall>original_path file_path n.
                            map_of t ''original_path'' = Some original_path
                            \<and> exists fs original_path
                            \<and> getsize fs original_path = Some 0
                            \<and> map_of t ''file_path'' = Some file_path
                            \<and> getsize fs file_path = Some n \<longrightarrow>
                            map_of t' ''size_comparison'' = Some (format_file_size T n))
                      \<and> (\<forall>original_path file_path m n.
                            map_of t ''original_path'' = Some original_path
                            \<and> exists fs original_path
                            \<and> getsize fs original_path = Some m \<and> 0 < m
                            \<and> map_of t ''file_path'' = Some file_path
                            \<and> getsize fs file_path = Some n \<longrightarrow>
                            map_of t' ''size_comparison''
                              = Some (smaller_text T (format_file_size T m) (format_file_size T n)
                                        (100 - of_nat n / of_nat m * 100))))
                   (get_completed_transcodes (transcode_path config)) ts')"
    using completed_rendering by blast
qed

theorem views_never_divide_by_zero_witness:
  "getsize disk (path the_film) = Some 0
   \<and> job_file_size printer disk (the_job ''j3'' ''completed'') the_film = Inr ''# KB''
   \<and> size_comparison printer disk (hd (one_transcode JNull)) = Inr ''# KB''
   \<and> jobs printer one_film no_show disk [the_job ''j3'' ''completed'']
       = Inr \<lparr>calls = [],
              body = RenderJobs []
                [\<lparr>job = the_job ''j3'' ''completed'', media_title = ''Film'',
                  file_size = ''# KB''\<rparr>] []\<rparr>
   \<and> completed printer Absent one_transcode disk
       = Inr \<lparr>calls = [],
              body = RenderCompleted
                ([(''original_path'', ''/media/film.mkv''),
                  (''file_path'', ''/transcodes/film.mkv''),
                  (''size_comparison'', ''# KB'')] # [])\<rparr>
   \<and> jobs printer one_film no_show disk [the_job ''j3'' ''completed''] \<noteq> Inl ZeroDivisionError
   \<and> completed printer Absent one_transcode disk \<noteq> Inl ZeroDivisionError"
proof -
  note at_film = views_never_divide_by_zero [of printer one_film no_show disk
      "[the_job ''j3'' ''completed'']" Absent one_transcode the_film "the_job ''j3'' ''completed''"
      "hd (one_transcode JNull)" "''/media/film.mkv''" "''/transcodes/film.mkv''" 2048]
  have no_error: "jobs printer one_film no_show disk [the_job ''j3'' ''completed'']
      \<noteq> Inl ZeroDivisionError"
    by (rule at_film [THEN conjunct1])
  have no_error': "completed printer Absent one_transcode disk \<noteq> Inl ZeroDivisionError"
    by (rule at_film [THEN conjunct2, THEN conjunct1])
  have size: "getsize disk (path the_film) = Some 0"
    by (simp add: disk_def the_film_def size_on_disk_def)
  have out: "job_file_size printer disk (the_job ''j3'' ''completed'') the_film \<noteq> Inl OSError"
    by (simp add: job_file_size_def disk_def the_film_def the_job_def size_on_disk_def on_disk_def)
  have rec: "map_of (hd (one_transcode JNull)) ''original_path'' = Some ''/media/film.mkv''
      \<and> exists disk ''/media/film.mkv'' \<and> getsize disk ''/media/film.mkv'' = Some 0
      \<and> map_of (hd (one_transcode JNull)) ''file_path'' = Some ''/transcodes/film.mkv''
      \<and> getsize disk ''/transcodes/film.mkv'' = Some 2048"
    by (simp add: one_transcode_def disk_def on_disk_def size_on_disk_def)
  have fmt: "format_file_size printer 0 = ''# KB''" "format_file_size printer 2048 = ''# KB''"
    by (simp_all add: format_file_size_def printer_def digits_def)
  have plain: "job_file_size printer disk (the_job ''j3'' ''completed'') the_film = Inr ''# KB''"
    using at_film [THEN conjunct2, THEN conjunct2, THEN conjunct1, THEN mp, OF size] out fmt
    by simp
  have plain': "size_comparison printer disk (hd (one_transcode JNull)) = Inr ''# KB''"
    using at_film [THEN conjunct2, THEN conjunct2, THEN conjunct2, THEN conjunct1, THEN mp, OF rec]
      fmt
    by simp
  have view: "jobs printer one_film no_show disk [the_job ''j3'' ''completed'']
       = Inr \<lparr>calls = [],
              body = RenderJobs []
                [\<lparr>job = the_job ''j3'' ''completed'', media_title = ''Film'',
                  file_size = ''# KB''\<rparr>] []\<rparr>"
    by (simp add: jobs_def job_entry_def plain [unfolded the_job_def the_film_def]
        job_media_title_def categorize_def one_film_def the_film_def the_job_def)
  have cfg: "load_config Absent = Inr (build_config default_config (JString ''/media''))"
    by (rule load_config_Absent)
  have "completed_loop printer disk (one_transcode JNull)
      = Inr (dict_set (hd (one_transcode JNull)) ''size_comparison'' ''# KB'' # [])"
    using plain' by (simp add: one_transcode_def)
  then have view': "completed printer Absent one_transcode disk
       = Inr \<lparr>calls = [],
              body = RenderCompleted
                ([(''original_path'', ''/media/film.mkv''),
                  (''file_path'', ''/transcodes/film.mkv''),
                  (''size_comparison'', ''# KB'')] # [])\<rparr>"
    by (simp add: completed_def cfg one_transcode_def)
  from size plain plain' view view' no_error no_error' show ?thesis
    by (intro conjI)
qed

subsection \<open>The transcode route\<close>

text \<open>For an item that is not a movie and has no show, the handler does not answer: the
  redirect to the show page cannot be built.\<close>

lemma back_to_media_without_show:
  "media_type media_item \<noteq> ''movie'' \<Longrightarrow> show_id media_item = None \<Longrightarrow>
     back_to_media mid media_item = Inl BuildError"
  by (simp add: back_to_media_def)

text \<open>
  C2, as amended. For every POST to the transcode route whose preset name is not a key of
  the configured presets mapping, \<^verbatim>\<open>create_job\<close> and \<^verbatim>\<open>start_transcode\<close> are not invoked.
  When the media item does not exist, the handler flashes "Media not found" and redirects
  to the index page. When the media item exists, the handler flashes "Invalid preset" and
  redirects to the media page if the item is a movie, and to the show page if it is not a
  movie and has a show id.
\<close>

theorem transcode_unknown_preset:
  assumes "load_config cf = Inr config"
    and "presets config = JObject ps"
    and "\<not> dict_contains ps name"
  shows "filter starts_job (fst (transcode get_media cf create_job (Some name) mid)) = []
    \<and> (get_media mid = None \<longrightarrow>
         transcode get_media cf create_job (Some name) mid
           = ([Flash ''Media not found'' ''message''], Inr (Redirect ''ui.index'' [])))
    \<and> (\<forall>media_item. get_media mid = Some media_item \<and> media_type media_item = ''movie'' \<longrightarrow>
         transcode get_media cf create_job (Some name) mid
           = ([Flash ''Invalid preset'' ''message''],
              Inr (Redirect ''ui.media_detail'' [(''media_id'', mid)])))
    \<and> (\<forall>media_item sid. get_media mid = Some media_item
           \<and> media_type media_item \<noteq> ''movie'' \<and> show_id media_item = Some sid \<longrightarrow>
         transcode get_media cf create_job (Some name) mid
           = ([Flash ''Invalid preset'' ''message''],
              Inr (Redirect ''ui.show_detail'' [(''show_id'', sid)])))"
proof -
  from assms have known: "str_in name (presets config) = Inr False"
    by simp
  show ?thesis
  proof (cases "get_media mid")
    case None
    then show ?thesis
      by (simp add: transcode_def flash_def starts_job_def)
  next
    case (Some media_item)
    with assms(1) known
    have "transcode get_media cf create_job (Some name) mid
            = ([Flash ''Invalid preset'' ''message''], back_to_media mid media_item)"
      by (simp add: transcode_def flash_def)
    with Some show ?thesis
      by (simp add: back_to_media_def starts_job_def)
  qed
qed

theorem transcode_unknown_preset_witness:
  "transcode film_and_episode Absent (pending_job ''j1'' ''m1'') (Some ''ultra'') ''m1''
     = ([Flash ''Invalid preset'' ''message''],
        Inr (Redirect ''ui.media_detail'' [(''media_id'', ''m1'')]))
   \<and> transcode film_and_episode Absent (pending_job ''j2'' ''e1'') (Some ''ultra'') ''e1''
     = ([Flash ''Invalid preset'' ''message''],
        Inr (Redirect ''ui.show_detail'' [(''show_id'', ''s1'')]))
   \<and> transcode film_and_episode Absent (pending_job ''j3'' ''x'') (Some ''ultra'') ''x''
     = ([Flash ''Media not found'' ''message''], Inr (Redirect ''ui.index'' []))"
proof -
  have cfg: "load_config Absent = Inr (build_config default_config (JString ''/media''))"
    by (rule load_config_Absent)
  have ps: "presets (build_config default_config (JString ''/media'')) = JObject (items default_presets)"
    by (simp add: presets_build_config default_config_def dict_get_default_def none_to_empty_def
        default_presets_def items_def)
  have key: "\<not> dict_contains (items default_presets) ''ultra''"
    by (simp add: default_presets_def items_def dict_contains_def)
  have film: "film_and_episode ''m1'' = Some the_film \<and> media_type the_film = ''movie''"
    by (simp add: film_and_episode_def the_film_def)
  have episode: "film_and_episode ''e1'' = Some the_episode
      \<and> media_type the_episode \<noteq> ''movie'' \<and> show_id the_episode = Some ''s1''"
    by (simp add: film_and_episode_def the_episode_def)
  have unknown: "film_and_episode ''x'' = None"
    by (simp add: film_and_episode_def)
  note movie_case = transcode_unknown_preset [OF cfg ps key,
      of film_and_episode "pending_job ''j1'' ''m1''" "''m1''",
      THEN conjunct2, THEN conjunct2, THEN conjunct1, rule_format, OF film]
  note show_case = transcode_unknown_preset [OF cfg ps key,
      of film_and_episode "pending_job ''j2'' ''e1''" "''e1''",
      THEN conjunct2, THEN conjunct2, THEN conjunct2, rule_format, OF episode]
  note none_case = transcode_unknown_preset [OF cfg ps key,
      of film_and_episode "pending_job ''j3'' ''x''" "''x''",
      THEN conjunct2, THEN conjunct1, rule_format, OF unknown]
  show ?thesis
    by (intro conjI movie_case show_case none_case)
qed

text \<open>
  C2, as stated, fails: a POST that names an unknown preset and an unknown media item is
  answered with "Media not found" and a redirect to the index page, not with "Invalid
  preset" and a redirect to the media or show page.
\<close>

theorem transcode_unknown_preset_counterexample:
  "str_in ''ultra'' default_presets = Inr False
   \<and> transcode no_media Absent (pending_job ''j1'' ''m1'') (Some ''ultra'') ''m1''
       = ([Flash ''Media not found'' ''message''], Inr (Redirect ''ui.index'' []))"
  by (simp add: transcode_def no_media_def flash_def default_presets_def dict_contains_def)

subsection \<open>The cancel and delete routes\<close>

text \<open>
  C6. For every job id, whatever the cancel operation returns, the cancel route completes
  with a redirect to the jobs page: it flashes "Could not cancel job" when the operation
  returns false and "Job cancelled successfully" when it returns true.
\<close>

theorem cancel_job_completes:
  "cancel_job cancel_transcode_job jid =
     Inr \<lparr>calls = [CancelTranscodeJob jid,
                   if cancel_transcode_job jid then Flash ''Job cancelled successfully'' ''message''
                   else Flash ''Could not cancel job'' ''error''],
          body = Redirect ''ui.jobs'' []\<rparr>"
  by (simp add: cancel_job_def flash_def)

theorem cancel_job_completes_witness:
  "status_of ''a'' (registry (last (states 1 finished initial))) = Some ''completed''
   \<and> cancel_job (cancel_in (last (states 1 finished initial))) ''a'' =
       Inr \<lparr>calls = [CancelTranscodeJob ''a'', Flash ''Could not cancel job'' ''error''],
            body = Redirect ''ui.jobs'' []\<rparr>"
proof -
  have fin: "status_of ''a'' (registry (last (states 1 finished initial))) = Some ''completed''"
    by (simp add: finished_def initial_def submit_def admit_def finish_def terminal_def)
  then have "\<not> cancel_in (last (states 1 finished initial)) ''a''"
    by (simp add: cancel_in_def cancel_request_def)
  with cancel_job_completes [of "cancel_in (last (states 1 finished initial))" "''a''"] fin
  show ?thesis
    by simp
qed

lemma delete_completed_transcode_reply:
  assumes "load_config cf = Inr config"
    and "dt filename (transcode_path config) = (success, message)"
  shows "delete_completed_transcode cf dt filename =
     Inr \<lparr>calls = [DeleteTranscode filename (transcode_path config),
                   if success then Flash (''Transcode deleted: '' @ message) ''message''
                   else Flash (''Error deleting transcode: '' @ message) ''error''],
          body = Redirect ''ui.completed'' []\<rparr>"
  using assms by (simp add: delete_completed_transcode_def flash_def)

subsection \<open>The download route\<close>

text \<open>
  C10. For every requested filename, with the configuration loaded and the transcode root
  mapped, \<^verbatim>\<open>download_file\<close> sends the file at the root joined with the filename exactly when
  that path exists, is a regular file and its real path starts with the real path of the
  root; otherwise it flashes a message, redirects to the completed page and sends no
  file. Whenever the handler sends a file, all three checks have passed.
\<close>

theorem download_file_checks:
  "(\<forall>r p a. download_file cf apply_output_path_mapping fs filename = Inr r
        \<and> body r = SendFile p a \<longrightarrow>
      (\<exists>config mapped. load_config cf = Inr config
         \<and> apply_output_path_mapping (transcode_path config) = Inr (JString mapped)
         \<and> p = path_join mapped filename \<and> exists fs p \<and> isfile fs p
         \<and> prefix (realpath fs mapped) (realpath fs p)))
   \<and> (\<forall>config mapped. load_config cf = Inr config
        \<and> apply_output_path_mapping (transcode_path config) = Inr (JString mapped) \<longrightarrow>
      download_file cf apply_output_path_mapping fs filename =
        Inr (if exists fs (path_join mapped filename) \<and> isfile fs (path_join mapped filename)
             then if prefix (realpath fs mapped) (realpath fs (path_join mapped filename))
                  then \<lparr>calls = [], body = SendFile (path_join mapped filename) True\<rparr>
                  else \<lparr>calls = [Flash ''Invalid file path'' ''message''],
                        body = Redirect ''ui.completed'' []\<rparr>
             else \<lparr>calls = [Flash ''File not found'' ''message''],
                   body = Redirect ''ui.completed'' []\<rparr>))"
proof (intro conjI allI impI)
  fix r p a
  assume "download_file cf apply_output_path_mapping fs filename = Inr r \<and> body r = SendFile p a"
  then show "\<exists>config mapped. load_config cf = Inr config
         \<and> apply_output_path_mapping (transcode_path config) = Inr (JString mapped)
         \<and> p = path_join mapped filename \<and> exists fs p \<and> isfile fs p
         \<and> prefix (realpath fs mapped) (realpath fs p)"
    by (auto simp: download_file_def Let_def split: sum.splits json.splits if_splits)
next
  fix config mapped
  assume "load_config cf = Inr config
        \<and> apply_output_path_mapping (transcode_path config) = Inr (JString mapped)"
  then show "download_file cf apply_output_path_mapping fs filename =
        Inr (if exists fs (path_join mapped filename) \<and> isfile fs (path_join mapped filename)
             then if prefix (realpath fs mapped) (realpath fs (path_join mapped filename))
                  then \<lparr>calls = [], body = SendFile (path_join mapped filename) True\<rparr>
                  else \<lparr>calls = [Flash ''Invalid file path'' ''message''],
                        body = Redirect ''ui.completed'' []\<rparr>
             else \<lparr>calls = [Flash ''File not found'' ''message''],
                   body = Redirect ''ui.completed'' []\<rparr>)"
    by (simp add: download_file_def Let_def flash_def)
qed

theorem download_file_checks_witness:
  "download_file Absent unmapped disk ''film.mkv''
     = Inr \<lparr>calls = [], body = SendFile ''/transcodes/film.mkv'' True\<rparr>
   \<and> exists disk ''/transcodes/film.mkv'' \<and> isfile disk ''/transcodes/film.mkv''
   \<and> prefix (realpath disk ''/transcodes'') (realpath disk ''/transcodes/film.mkv'')
   \<and> download_file Absent unmapped disk ''nope.mkv''
     = Inr \<lparr>calls = [Flash ''File not found'' ''message''], body = Redirect ''ui.completed'' []\<rparr>"
proof -
  let ?config = "build_config default_config (JString ''/media'')"
  have cfg: "load_config Absent = Inr ?config"
    by (rule load_config_Absent)
  have tp: "unmapped (transcode_path ?config) = Inr (JString ''/transcodes'')"
    by (simp add: unmapped_def build_config_def post_init_def default_config_def
        dict_get_default_def)
  have film: "path_join ''/transcodes'' ''film.mkv'' = ''/transcodes/film.mkv''"
    and nope: "path_join ''/transcodes'' ''nope.mkv'' = ''/transcodes/nope.mkv''"
    by (simp_all add: path_join_def suffix_def)
  have d: "exists disk ''/transcodes/film.mkv''" "isfile disk ''/transcodes/film.mkv''"
    "prefix (realpath disk ''/transcodes'') (realpath disk ''/transcodes/film.mkv'')"
    and n: "\<not> exists disk ''/transcodes/nope.mkv''"
    by (simp_all add: disk_def on_disk_def resolved_def)
  note film_eq = download_file_checks [of Absent unmapped disk "''film.mkv''",
      THEN conjunct2, rule_format, OF conjI, OF cfg tp]
  note nope_eq = download_file_checks [of Absent unmapped disk "''nope.mkv''",
      THEN conjunct2, rule_format, OF conjI, OF cfg tp]
  have "download_file Absent unmapped disk ''film.mkv''
     = Inr \<lparr>calls = [], body = SendFile ''/transcodes/film.mkv'' True\<rparr>"
    unfolding film_eq film using d by simp
  moreover have "download_file Absent unmapped disk ''nope.mkv''
     = Inr \<lparr>calls = [Flash ''File not found'' ''message''], body = Redirect ''ui.completed'' []\<rparr>"
    unfolding nope_eq nope using n by simp
  ultimately show ?thesis
    using d by simp
qed


section \<open>Properties of the engine\<close>

subsection \<open>Path Mapper\<close>

lemma map_path_find:
  "map_path table p =
     (case find (\<lambda>(src, dst). prefix src p) table of
        None \<Rightarrow> p
      | Some (src, dst) \<Rightarrow> dst @ drop (length src) p)"
  by (induction table) auto

lemma map_path_no_match:
  "(\<forall>(src, dst) \<in> set table. \<not> prefix src q) \<Longrightarrow> map_path table q = q"
  by (induction table) auto

lemma map_path_cases:
  "map_path table p = p
   \<or> (\<exists>src dst. (src, dst) \<in> set table \<and> map_path table p = dst @ drop (length src) p)"
proof (induction table)
  case Nil
  show ?case by simp
next
  case (Cons e table)
  obtain src dst where e: "e = (src, dst)"
    by (cases e)
  show ?case
  proof (cases "prefix src p")
    case True
    with e have "map_path (e # table) p = dst @ drop (length src) p"
      by simp
    with e show ?thesis
      by auto
  next
    case False
    with e have "map_path (e # table) p = map_path table p"
      by simp
    with Cons.IH show ?thesis
      by auto
  qed
qed

lemma prefix_of_append:
  assumes "prefix s (d @ r)"
  shows "prefix s d \<or> prefix d s"
proof -
  from assms obtain t where "d @ r = s @ t"
    by (auto simp: prefix_def)
  then show ?thesis
    by (auto simp: append_eq_append_conv2 prefix_def)
qed

subsection \<open>Scheduler\<close>

lemma set_status_count_le:
  "length (filter P (set_status jid s js)) \<le> Suc (length (filter P js))"
  by (induction js) auto

lemma set_status_leaves_processing:
  assumes "status_of jid js = Some ''processing''" and "s \<noteq> ''processing''"
  shows "Suc (length (filter (\<lambda>j. status j = ''processing'') (set_status jid s js)))
           = length (filter (\<lambda>j. status j = ''processing'') js)"
  using assms by (induction js) (auto split: if_splits)

lemma set_status_elsewhere:
  assumes "status_of jid js = Some s0" and "s0 \<noteq> ''processing''" and "s \<noteq> ''processing''"
  shows "length (filter (\<lambda>j. status j = ''processing'') (set_status jid s js))
           = length (filter (\<lambda>j. status j = ''processing'') js)"
  using assms by (induction js) (auto split: if_splits)

lemma delete_job_elsewhere:
  assumes "status_of jid js = Some s0" and "s0 \<noteq> ''processing''"
  shows "length (filter (\<lambda>j. status j = ''processing'') (delete_job jid js))
           = length (filter (\<lambda>j. status j = ''processing'') js)"
  using assms by (induction js) (auto split: if_splits)

lemma bounded_initial: "bounded limit initial"
  by (simp add: bounded_def initial_def processing_jobs_def)

lemma bounded_submit: "bounded limit st \<Longrightarrow> bounded limit (submit jid mid name st)"
  by (simp add: bounded_def submit_def processing_jobs_def)

lemma bounded_admit:
  assumes "bounded limit st"
  shows "bounded limit (admit limit st)"
proof (cases "queue st")
  case Nil
  with assms show ?thesis
    by (simp add: admit_def)
next
  case (Cons jid rest)
  show ?thesis
  proof (cases "processing_count st < limit")
    case True
    have "length (filter (\<lambda>j. status j = ''processing'')
              (set_status jid ''processing'' (registry st)))
            \<le> Suc (length (processing_jobs st))"
      unfolding processing_jobs_def by (rule set_status_count_le)
    with assms True Cons show ?thesis
      by (simp add: admit_def bounded_def processing_jobs_def)
  next
    case False
    with assms Cons show ?thesis
      by (simp add: admit_def)
  qed
qed

lemma bounded_finish:
  assumes "bounded limit st"
  shows "bounded limit (finish jid s st)"
proof (cases "terminal s \<and> status_of jid (registry st) = Some ''processing''")
  case True
  then have "s \<noteq> ''processing''"
    by (auto simp: terminal_def)
  with True have "Suc (length (filter (\<lambda>j. status j = ''processing'')
        (set_status jid s (registry st)))) = length (processing_jobs st)"
    unfolding processing_jobs_def by (intro set_status_leaves_processing) simp_all
  with assms True show ?thesis
    by (auto simp: finish_def bounded_def processing_jobs_def)
next
  case False
  with assms show ?thesis
    by (auto simp: finish_def)
qed

lemma bounded_cancel:
  assumes "bounded limit st"
  shows "bounded limit (snd (cancel_request jid st))"
proof (cases "status_of jid (registry st)")
  case None
  with assms show ?thesis
    by (simp add: cancel_request_def)
next
  case (Some s0)
  show ?thesis
  proof (cases "s0 = ''pending''")
    case True
    with Some have "length (filter (\<lambda>j. status j = ''processing'')
        (set_status jid ''cancelled'' (registry st))) = length (processing_jobs st)"
      unfolding processing_jobs_def by (intro set_status_elsewhere [of _ _ s0]) simp_all
    with assms Some True show ?thesis
      by (simp add: cancel_request_def bounded_def processing_jobs_def)
  next
    case False
    with assms Some show ?thesis
      by (simp add: cancel_request_def bounded_def processing_jobs_def)
  qed
qed

lemma bounded_remove:
  assumes "bounded limit st"
  shows "bounded limit (snd (remove_request jid st))"
proof (cases "status_of jid (registry st)")
  case None
  with assms show ?thesis
    by (simp add: remove_request_def)
next
  case (Some s0)
  show ?thesis
  proof (cases "terminal s0")
    case True
    then have "s0 \<noteq> ''processing''"
      by (auto simp: terminal_def)
    with Some have "length (filter (\<lambda>j. status j = ''processing'')
        (delete_job jid (registry st))) = length (processing_jobs st)"
      unfolding processing_jobs_def by (intro delete_job_elsewhere [of _ _ s0]) simp_all
    with assms Some True show ?thesis
      by (simp add: remove_request_def bounded_def processing_jobs_def)
  next
    case False
    with assms Some show ?thesis
      by (simp add: remove_request_def)
  qed
qed

text \<open>Cancelling a job that is already in a terminal state changes nothing and is
  refused.\<close>

lemma cancel_request_terminal:
  assumes "status_of jid (registry st) = Some s" and "terminal s"
  shows "cancel_request jid st = (False, st)"
  using assms by (auto simp: cancel_request_def terminal_def)

lemma bounded_step: "bounded limit st \<Longrightarrow> bounded limit (step limit ev st)"
  by (cases ev) (simp_all add: bounded_submit bounded_admit bounded_finish bounded_cancel
      bounded_remove)

lemma bounded_states:
  "bounded limit st \<Longrightarrow> s \<in> set (states limit evs st) \<Longrightarrow> bounded limit s"
proof (induction evs arbitrary: st)
  case Nil
  then show ?case by simp
next
  case (Cons ev evs)
  from Cons.prems(2) have "s = st \<or> s \<in> set (states limit evs (step limit ev st))"
    by simp
  then show ?case
  proof
    assume "s = st"
    with Cons.prems(1) show ?thesis by simp
  next
    assume "s \<in> set (states limit evs (step limit ev st))"
    moreover from Cons.prems(1) have "bounded limit (step limit ev st)"
      by (rule bounded_step)
    ultimately show ?thesis
      by (rule Cons.IH [rotated])
  qed
qed

text \<open>
  C1. In every state of every execution of the engine, for any sequence of submissions,
  admissions, completions, cancellations and removals (bursts of submissions beyond the
  ceiling included), the number of jobs whose status is \<^verbatim>\<open>processing\<close> is at most the
  concurrency ceiling.
\<close>

theorem processing_never_exceeds_limit:
  "\<forall>st \<in> set (states limit evs initial). length (processing_jobs st) \<le> limit"
proof
  fix st
  assume "st \<in> set (states limit evs initial)"
  with bounded_initial have "bounded limit st"
    by (rule bounded_states)
  then show "length (processing_jobs st) \<le> limit"
    by (simp add: bounded_def)
qed

theorem processing_never_exceeds_limit_witness:
  "last (states 2 burst initial) \<in> set (states 2 burst initial)
   \<and> map status (registry (last (states 2 burst initial)))
       = [''processing'', ''processing'', ''pending'']
   \<and> length (processing_jobs (last (states 2 burst initial))) \<le> 2"
proof -
  have run: "last (states 2 burst initial) \<in> set (states 2 burst initial)"
    by (simp add: burst_def)
  have "map status (registry (last (states 2 burst initial)))
       = [''processing'', ''processing'', ''pending'']"
    by (simp add: burst_def initial_def submit_def admit_def)
  with run processing_never_exceeds_limit [of 2 burst] show ?thesis
    by blast
qed

text \<open>
  C3, as amended. For every path and every ordered mapping table, the path-mapping
  operation replaces the first matching source prefix of the path with that entry's
  destination prefix and returns the path unchanged when no entry matches; it is
  idempotent under re-application whenever no source prefix of the table is a prefix of
  a destination prefix and no destination prefix is a prefix of a source prefix.
\<close>

theorem map_path_idempotent:
  "map_path table p =
     (case find (\<lambda>(src, dst). prefix src p) table of
        None \<Rightarrow> p
      | Some (src, dst) \<Rightarrow> dst @ drop (length src) p)
   \<and> ((\<forall>(src, dst) \<in> set table. \<forall>(src', dst') \<in> set table.
          \<not> prefix src' dst \<and> \<not> prefix dst src') \<longrightarrow>
        map_path table (map_path table p) = map_path table p)"
proof (intro conjI impI)
  show "map_path table p =
     (case find (\<lambda>(src, dst). prefix src p) table of
        None \<Rightarrow> p
      | Some (src, dst) \<Rightarrow> dst @ drop (length src) p)"
    by (rule map_path_find)
next
  assume apart: "\<forall>(src, dst) \<in> set table. \<forall>(src', dst') \<in> set table.
          \<not> prefix src' dst \<and> \<not> prefix dst src'"
  from map_path_cases [of table p]
  show "map_path table (map_path table p) = map_path table p"
  proof
    assume "map_path table p = p"
    then show ?thesis by simp
  next
    assume "\<exists>src dst. (src, dst) \<in> set table
        \<and> map_path table p = dst @ drop (length src) p"
    then obtain src dst where entry: "(src, dst) \<in> set table"
      and mapped: "map_path table p = dst @ drop (length src) p"
      by blast
    have "\<forall>(src', dst') \<in> set table. \<not> prefix src' (dst @ drop (length src) p)"
    proof (intro ballI, clarify)
      fix src' dst'
      assume "(src', dst') \<in> set table" and "prefix src' (dst @ drop (length src) p)"
      then have "prefix src' dst \<or> prefix dst src'"
        using prefix_of_append by blast
      with apart entry \<open>(src', dst') \<in> set table\<close> show False
        by blast
    qed
    then have "map_path table (dst @ drop (length src) p) = dst @ drop (length src) p"
      by (rule map_path_no_match)
    with mapped show ?thesis by simp
  qed
qed

theorem map_path_idempotent_witness:
  "map_path [(''/media'', ''/mnt/library'')] ''/media/film.mkv'' = ''/mnt/library/film.mkv''
   \<and> map_path [(''/media'', ''/mnt/library'')]
        (map_path [(''/media'', ''/mnt/library'')] ''/media/film.mkv'')
       = map_path [(''/media'', ''/mnt/library'')] ''/media/film.mkv''"
proof -
  have apart: "\<forall>(src, dst) \<in> set [(''/media'', ''/mnt/library'')].
      \<forall>(src', dst') \<in> set [(''/media'', ''/mnt/library'')].
        \<not> prefix src' dst \<and> \<not> prefix dst src'"
    by simp
  have "map_path [(''/media'', ''/mnt/library'')] ''/media/film.mkv'' = ''/mnt/library/film.mkv''"
    by simp
  with map_path_idempotent [of "[(''/media'', ''/mnt/library'')]" "''/media/film.mkv''"] apart
  show ?thesis
    by blast
qed

text \<open>
  C3, as stated, fails, whichever way a destination is matched against a source prefix.
  With the single entry \<^verbatim>\<open>/data/media\<close> to \<^verbatim>\<open>/data\<close> the source prefix is not a prefix of the
  destination, yet \<^verbatim>\<open>/data/media/media/f.mkv\<close> maps to \<^verbatim>\<open>/data/media/f.mkv\<close> and that maps to
  \<^verbatim>\<open>/data/f.mkv\<close>. With the single entry \<^verbatim>\<open>/media\<close> to \<^verbatim>\<open>/media/new\<close> the destination is
  not a prefix of the source prefix, yet \<^verbatim>\<open>/media/f.mkv\<close> maps to \<^verbatim>\<open>/media/new/f.mkv\<close> and
  that maps to \<^verbatim>\<open>/media/new/new/f.mkv\<close>.
\<close>

theorem map_path_idempotent_counterexample:
  "\<not> prefix ''/data/media'' ''/data''
   \<and> map_path [(''/data/media'', ''/data'')] ''/data/media/media/f.mkv'' = ''/data/media/f.mkv''
   \<and> map_path [(''/data/media'', ''/data'')]
        (map_path [(''/data/media'', ''/data'')] ''/data/media/media/f.mkv'') = ''/data/f.mkv''
   \<and> \<not> prefix ''/media/new'' ''/media''
   \<and> map_path [(''/media'', ''/media/new'')] ''/media/f.mkv'' = ''/media/new/f.mkv''
   \<and> map_path [(''/media'', ''/media/new'')]
        (map_path [(''/media'', ''/media/new'')] ''/media/f.mkv'') = ''/media/new/new/f.mkv''"
  by simp

subsection \<open>Completed Transcode Store\<close>

text \<open>
  C7. For every filename, deletion returns a pair of a success flag and a non-empty
  message: deleting a non-existent filename reports failure and leaves the store as it
  was; deleting an existing file that the file system lets go succeeds; whenever deletion
  succeeds, both the output file and its metadata record are gone. In every outcome the
  delete route flashes the message and redirects to the completed page.
\<close>

theorem delete_transcode_outcomes:
  assumes "load_config cf = Inr config"
    and "delete_transcode filename st = ((success, message), st')"
  shows "delete_completed_transcode cf (delete_in st) filename =
           Inr \<lparr>calls = [DeleteTranscode filename (transcode_path config),
                         if success then Flash (''Transcode deleted: '' @ message) ''message''
                         else Flash (''Error deleting transcode: '' @ message) ''error''],
                body = Redirect ''ui.completed'' []\<rparr>
         \<and> message \<noteq> []
         \<and> (filename \<notin> set (files st) \<longrightarrow> \<not> success \<and> st' = st)
         \<and> (filename \<in> set (files st) \<and> filename \<notin> set (locked st) \<longrightarrow> success)
         \<and> (success \<longrightarrow> filename \<notin> set (files st') \<and> filename \<notin> set (metadata st'))"
proof -
  have "delete_in st filename (transcode_path config) = (success, message)"
    using assms(2) by (simp add: delete_in_def)
  with assms(1) have "delete_completed_transcode cf (delete_in st) filename =
           Inr \<lparr>calls = [DeleteTranscode filename (transcode_path config),
                         if success then Flash (''Transcode deleted: '' @ message) ''message''
                         else Flash (''Error deleting transcode: '' @ message) ''error''],
                body = Redirect ''ui.completed'' []\<rparr>"
    by (rule delete_completed_transcode_reply)
  moreover from assms(2) have "message \<noteq> []"
    by (auto simp: delete_transcode_def split: if_splits)
  moreover from assms(2) have "filename \<notin> set (files st) \<longrightarrow> \<not> success \<and> st' = st"
    by (auto simp: delete_transcode_def split: if_splits)
  moreover from assms(2)
  have "filename \<in> set (files st) \<and> filename \<notin> set (locked st) \<longrightarrow> success"
    by (auto simp: delete_transcode_def split: if_splits)
  moreover from assms(2)
  have "success \<longrightarrow> filename \<notin> set (files st') \<and> filename \<notin> set (metadata st')"
    by (auto simp: delete_transcode_def split: if_splits)
  ultimately show ?thesis
    by blast
qed

theorem delete_transcode_outcomes_witness:
  "delete_transcode ''film.mkv'' library
     = ((True, ''Deleted film.mkv and its metadata''),
        \<lparr>files = [''clip.mkv''], metadata = [], locked = []\<rparr>)
   \<and> delete_completed_transcode Absent (delete_in library) ''film.mkv''
     = Inr \<lparr>calls = [DeleteTranscode ''film.mkv'' (JString ''/transcodes''),
                     Flash ''Transcode deleted: Deleted film.mkv and its metadata'' ''message''],
            body = Redirect ''ui.completed'' []\<rparr>"
proof -
  let ?config = "build_config default_config (JString ''/media'')"
  have cfg: "load_config Absent = Inr ?config"
    by (rule load_config_Absent)
  have tp: "transcode_path ?config = JString ''/transcodes''"
    by (simp add: build_config_def post_init_def default_config_def dict_get_default_def)
  have del: "delete_transcode ''film.mkv'' library
     = ((True, ''Deleted film.mkv and its metadata''),
        \<lparr>files = [''clip.mkv''], metadata = [], locked = []\<rparr>)"
    by (simp add: delete_transcode_def library_def)
  from delete_transcode_outcomes [OF cfg del] del show ?thesis
    by (simp add: tp)
qed


end
